theory Spec2Isabelle
  imports Complex_Main "HOL-Library.Char_ord" "HOL-Library.List_Lexorder"
begin

section \<open>Strings and errors of the host language\<close>

text \<open>
  The program is JavaScript running in a browser. A JavaScript string is modelled as a
  \<^typ>\<open>string\<close>, one \<^typ>\<open>char\<close> per code unit (code units above 255 are outside the
  model). An exception is a value of type \<open>error\<close>, carrying the message that
  \<^verbatim>\<open>error.message\<close> reads; a function that can throw returns \<open>error + 'a\<close>.
  \<^verbatim>\<open>null\<close> is \<^const>\<open>None\<close>.
\<close>

datatype error =
    Error (message: string)
  | TypeError (message: string)
  | URIError (message: string)

text \<open>\<^verbatim>\<open>s.startsWith(p)\<close> and \<^verbatim>\<open>s.substring(n)\<close> of the host language.\<close>

definition startsWith :: "string \<Rightarrow> string \<Rightarrow> bool" where
  "startsWith s p = (take (length p) s = p)"

definition substring :: "string \<Rightarrow> nat \<Rightarrow> string" where
  "substring s n = drop n s"

section \<open>dereferencer.js: the URI resolver\<close>

text \<open>
  \<^verbatim>\<open>extractURIFromPath\<close>. The page's \<^verbatim>\<open>window.location.pathname\<close> and
  \<^verbatim>\<open>CONFIG.BASE_URI\<close> (the page's origin) are arguments, and so is the host's
  \<^verbatim>\<open>decodeURIComponent\<close>, which throws a URIError on a malformed escape sequence.
\<close>

definition extractURIFromPath ::
  "(string \<Rightarrow> error + string) \<Rightarrow> string \<Rightarrow> string \<Rightarrow> error + string option" where
  "extractURIFromPath decodeURIComponent BASE_URI pathname =
     (let uri = substring pathname 1 in
      if uri = [] \<or> uri = ''/'' then Inr None
      else if startsWith uri ''http://'' \<or> startsWith uri ''https://'' then
        (case decodeURIComponent uri of Inl e \<Rightarrow> Inl e | Inr d \<Rightarrow> Inr (Some d))
      else Inr (Some (BASE_URI @ ''/'' @ uri)))"

text \<open>
  \<^verbatim>\<open>makeLocalLink\<close>, with \<^verbatim>\<open>window.location.origin\<close> and \<^verbatim>\<open>CONFIG.ENTITY_NS\<close>
  as arguments. \<^verbatim>\<open>s || '/'\<close> is \<^verbatim>\<open>'/'\<close> exactly when \<^verbatim>\<open>s\<close> is the empty string.
\<close>

definition makeLocalLink :: "string \<Rightarrow> string \<Rightarrow> string \<Rightarrow> string option" where
  "makeLocalLink origin ENTITY_NS uri =
     (if \<not> startsWith uri ENTITY_NS then None
      else if origin = ENTITY_NS then
        (let s = substring uri (length ENTITY_NS) in Some (if s = [] then ''/'' else s))
      else Some (''/'' @ uri))"

section \<open>dereferencer.js: the prefix shortener\<close>

text \<open>
  \<^verbatim>\<open>shortenURI\<close>. \<^verbatim>\<open>PREFIXES\<close> is given by \<^verbatim>\<open>Object.entries(PREFIXES)\<close>, the list of
  its (namespace, prefix) pairs in iteration order; the loop returns at the first
  namespace the URI starts with.
\<close>

fun shortenURI :: "(string \<times> string) list \<Rightarrow> string \<Rightarrow> string" where
  "shortenURI [] uri = uri"
| "shortenURI ((namespace, prefix) # entries) uri =
     (if startsWith uri namespace then prefix @ '':'' @ substring uri (length namespace)
      else shortenURI entries uri)"

section \<open>dereferencer.js: the triples of a resource\<close>

text \<open>
  The terms that the N3 parser returns: \<^verbatim>\<open>termType\<close> is the constructor, \<^verbatim>\<open>value\<close> is
  \<open>term_value\<close>; a literal also has its language tag (empty when absent) and the
  \<^verbatim>\<open>value\<close> of its datatype node. A quad's graph is never read.
\<close>

datatype rdf_term =
    NamedNode (term_value: string)
  | BlankNode (term_value: string)
  | Literal (term_value: string) (language: string) (datatype_value: string)

record quad =
  subject :: rdf_term
  predicate :: rdf_term
  object :: rdf_term

definition NS_RDF :: string where
  "NS_RDF = ''http://www.w3.org/1999/02/22-rdf-syntax-ns#''"

definition NS_GSP :: string where
  "NS_GSP = ''http://www.opengis.net/ont/geosparql#''"

text \<open>The fields of a \<^verbatim>\<open>URIDereferencer\<close> and its constructor.\<close>

record URIDereferencer =
  resourceURI :: "string option"
  triples :: "quad list"
  types :: "string list"
  geometryNode :: "string option"
  wktLiteral :: "string option"

definition new_URIDereferencer :: URIDereferencer where
  "new_URIDereferencer =
     \<lparr>resourceURI = None, triples = [], types = [], geometryNode = None, wktLiteral = None\<rparr>"

text \<open>
  \<^verbatim>\<open>parseResource\<close>: the types, and the geometry node, which is assigned only when a
  \<^verbatim>\<open>hasGeometry\<close> triple exists (\<^verbatim>\<open>geometryTriples[0]\<close> is read under that guard).
\<close>

definition parseResource :: "URIDereferencer \<Rightarrow> URIDereferencer" where
  "parseResource this =
     (let this1 = this\<lparr>types :=
            map (\<lambda>t. term_value (object t))
              (filter (\<lambda>t. term_value (predicate t) = NS_RDF @ ''type'') (triples this))\<rparr>;
          geometryTriples =
            filter (\<lambda>t. term_value (predicate t) = NS_GSP @ ''hasGeometry'') (triples this1)
      in if length geometryTriples > 0
         then this1\<lparr>geometryNode := Some (term_value (object (geometryTriples ! 0)))\<rparr>
         else this1)"

subsection \<open>Grouping the properties\<close>

text \<open>
  \<^verbatim>\<open>renderProperties\<close> collects the values in \<^verbatim>\<open>grouped = {}\<close>, an object used as a
  dictionary. Its own properties are an association list in insertion order. A key it
  does not own is still found when \<^verbatim>\<open>Object.prototype\<close> has it: \<^verbatim>\<open>grouped[pred]\<close> is then
  a function (or the prototype itself), which is truthy and has no \<^verbatim>\<open>push\<close>, so the call
  \<^verbatim>\<open>grouped[pred].push(...)\<close> throws a TypeError.
\<close>

type_synonym grouped = "(string \<times> rdf_term list) list"

definition object_prototype_keys :: "string list" where
  "object_prototype_keys =
     [''constructor'', ''__defineGetter__'', ''__defineSetter__'', ''hasOwnProperty'',
      ''__lookupGetter__'', ''__lookupSetter__'', ''isPrototypeOf'',
      ''propertyIsEnumerable'', ''toString'', ''valueOf'', ''__proto__'',
      ''toLocaleString'']"

datatype property_value = Undefined | Inherited | Own "rdf_term list"

definition grouped_get :: "grouped \<Rightarrow> string \<Rightarrow> property_value" where
  "grouped_get g k =
     (case map_of g k of
        Some vs \<Rightarrow> Own vs
      | None \<Rightarrow> if k \<in> set object_prototype_keys then Inherited else Undefined)"

definition grouped_set :: "grouped \<Rightarrow> string \<Rightarrow> rdf_term list \<Rightarrow> grouped" where
  "grouped_set g k vs =
     (if k \<in> fst ` set g then map (\<lambda>(k', vs'). if k' = k then (k', vs) else (k', vs')) g
      else g @ [(k, vs)])"

text \<open>
  The body of the \<^verbatim>\<open>forEach\<close> callback, and the loop over the triples. \<open>uri\<close> is
  \<^verbatim>\<open>this.resourceURI\<close>, a string or \<^verbatim>\<open>null\<close>; no string is strictly equal to \<^verbatim>\<open>null\<close>.
\<close>

definition group_triple :: "string option \<Rightarrow> grouped \<Rightarrow> quad \<Rightarrow> error + grouped" where
  "group_triple uri g triple =
     (if Some (term_value (subject triple)) = uri then
        (let pred = term_value (predicate triple);
             g1 = (if grouped_get g pred = Undefined then grouped_set g pred [] else g)
         in case grouped_get g1 pred of
              Own vs \<Rightarrow> Inr (grouped_set g1 pred (vs @ [object triple]))
            | _ \<Rightarrow> Inl (TypeError ''grouped[pred].push is not a function''))
      else Inr g)"

fun group_triples :: "string option \<Rightarrow> grouped \<Rightarrow> quad list \<Rightarrow> error + grouped" where
  "group_triples uri g [] = Inr g"
| "group_triples uri g (t # ts) =
     (case group_triple uri g t of
        Inl e \<Rightarrow> Inl e
      | Inr g' \<Rightarrow> group_triples uri g' ts)"

text \<open>
  The rows of the table: \<^verbatim>\<open>Object.keys(grouped).sort()\<close> (the default comparison, by code
  units), each key with \<^verbatim>\<open>grouped[predicate]\<close>. A row is the predicate and its values;
  the markup built from them by \<^verbatim>\<open>formatURI\<close> and \<^verbatim>\<open>formatValue\<close> is left out.
\<close>

definition own_values :: "grouped \<Rightarrow> string \<Rightarrow> rdf_term list" where
  "own_values g k = (case map_of g k of Some vs \<Rightarrow> vs | None \<Rightarrow> [])"

definition property_rows :: "grouped \<Rightarrow> (string \<times> rdf_term list) list" where
  "property_rows g = map (\<lambda>predicate. (predicate, own_values g predicate)) (sort (map fst g))"

section \<open>map-viewer.js: the geometry pipeline\<close>

subsection \<open>Geometries\<close>

text \<open>
  A coordinate value of the parsed geometry is a number or an array of coordinate
  values. The numbers are floating-point numbers of the host, which nothing here
  inspects: their type is a parameter. A geometry object has its \<^verbatim>\<open>type\<close>, its
  \<^verbatim>\<open>coordinates\<close> when it has the field, and the members of a collection.
\<close>

datatype 'n jsarr = Num 'n | Arr "'n jsarr list"

datatype 'n geojson =
  GeoJSON (geometry_type: string) (coordinates: "'n jsarr option") (geometries: "'n geojson list")

subsection \<open>Splitting the literal\<close>

text \<open>
  \<^verbatim>\<open>trim\<close> removes the white space and line terminators of the host at both ends; of
  these, the code units below 256 are tab, line feed, vertical tab, form feed, carriage
  return, space and the no-break space.
\<close>

definition is_space :: "char \<Rightarrow> bool" where
  "is_space c = (of_char c \<in> {9, 10, 11, 12, 13, 32, 160 :: nat})"

definition is_line_terminator :: "char \<Rightarrow> bool" where
  "is_line_terminator c = (of_char c \<in> {10, 13 :: nat})"

definition is_digit :: "char \<Rightarrow> bool" where
  "is_digit c = (c \<in> set ''0123456789'')"

definition trim :: "string \<Rightarrow> string" where
  "trim s = rev (dropWhile is_space (rev (dropWhile is_space s)))"

text \<open>
  Matching a literal part of a pattern under the \<^verbatim>\<open>i\<close> flag: the letters \<open>A\<close> to
  \<open>Z\<close> match in either case, every other code unit below 256 only itself.
\<close>

definition to_lower :: "char \<Rightarrow> char" where
  "to_lower c =
     (case map_of (zip ''ABCDEFGHIJKLMNOPQRSTUVWXYZ'' ''abcdefghijklmnopqrstuvwxyz'') c of
        Some l \<Rightarrow> l
      | None \<Rightarrow> c)"

definition match_literal_i :: "string \<Rightarrow> string \<Rightarrow> string option" where
  "match_literal_i lit s =
     (if length lit \<le> length s \<and> map to_lower (take (length lit) s) = map to_lower lit
      then Some (drop (length lit) s) else None)"

text \<open>
  \<^verbatim>\<open>(\d+)\<close> followed by a character that is not a digit: the longest run of digits, which
  must not be empty.
\<close>

definition match_digits :: "string \<Rightarrow> (string \<times> string) option" where
  "match_digits s =
     (let ds = takeWhile is_digit s in
      if ds = [] then None else Some (ds, dropWhile is_digit s))"

text \<open>
  \<^verbatim>\<open>(.+)$\<close> without the \<^verbatim>\<open>s\<close> and \<^verbatim>\<open>m\<close> flags: all that is left, which must not be empty
  and must hold no line terminator.
\<close>

definition match_rest :: "string \<Rightarrow> string option" where
  "match_rest s = (if s \<noteq> [] \<and> \<not> (\<exists>c \<in> set s. is_line_terminator c) then Some s else None)"

text \<open>
  \<^verbatim>\<open>/^SRID=(\d+);(.+)$/i\<close>: the two groups of a match.
\<close>

definition ewktMatch :: "string \<Rightarrow> (string \<times> string) option" where
  "ewktMatch s =
     (case match_literal_i ''SRID='' s of
        None \<Rightarrow> None
      | Some s1 \<Rightarrow>
          (case match_digits s1 of
             None \<Rightarrow> None
           | Some (ds, s2) \<Rightarrow>
               (case s2 of
                  [] \<Rightarrow> None
                | c # s3 \<Rightarrow>
                    if c = CHR '';'' then
                      (case match_rest s3 of None \<Rightarrow> None | Some r \<Rightarrow> Some (ds, r))
                    else None)))"

text \<open>
  \<^verbatim>\<open>\s+(.+)$\<close>: \<^verbatim>\<open>\s+\<close> takes the longest run of white space first and gives characters
  back only while the rest does not match. When something follows the run, that is the
  second group, or there is no match if it holds a line terminator (giving back cannot
  remove it). When nothing follows the run, the last white-space character is the
  group, if the run has two characters at least and that one is no line terminator.
\<close>

definition match_space_rest :: "string \<Rightarrow> string option" where
  "match_space_rest s =
     (let ws = takeWhile is_space s; r = dropWhile is_space s in
      if ws = [] then None
      else if r \<noteq> [] then match_rest r
      else if 2 \<le> length ws \<and> \<not> is_line_terminator (last ws) then Some [last ws]
      else None)"

text \<open>
  \<^verbatim>\<open>/^<http:\/\/www\.opengis\.net\/def\/crs\/EPSG\/0\/(\d+)>\s+(.+)$/i\<close>: the two groups of a
  match.
\<close>

definition ogcMatch :: "string \<Rightarrow> (string \<times> string) option" where
  "ogcMatch s =
     (case match_literal_i ''<http://www.opengis.net/def/crs/EPSG/0/'' s of
        None \<Rightarrow> None
      | Some s1 \<Rightarrow>
          (case match_digits s1 of
             None \<Rightarrow> None
           | Some (ds, s2) \<Rightarrow>
               (case s2 of
                  [] \<Rightarrow> None
                | c # s3 \<Rightarrow>
                    if c = CHR ''>'' then
                      (case match_space_rest s3 of None \<Rightarrow> None | Some r \<Rightarrow> Some (ds, r))
                    else None)))"

text \<open>
  The Number values that \<^verbatim>\<open>parseInt\<close> can return for a run of decimal digits: the
  floating-point numbers of the host that are natural numbers, and \<^verbatim>\<open>Infinity\<close>.
  \<open>to_number\<close> is the Number value for a natural number: the number itself below
  \<open>2^53\<close>, from there the nearest number with a significand of 53 bits, the even
  significand on a tie, and \<^verbatim>\<open>Infinity\<close> when that is \<open>2^1024\<close> or more.
\<close>

datatype js_number = Finite nat | Infinity

fun bitlen :: "nat \<Rightarrow> nat" where
  "bitlen n = (if n = 0 then 0 else Suc (bitlen (n div 2)))"

declare bitlen.simps [simp del]

definition to_number :: "nat \<Rightarrow> js_number" where
  "to_number n =
     (if n < 2 ^ 53 then Finite n
      else
        (let e = bitlen n - 53;
             q = n div 2 ^ e;
             r = n mod 2 ^ e;
             q' = (if 2 ^ e < 2 * r \<or> (2 * r = 2 ^ e \<and> odd q) then q + 1 else q);
             v = q' * 2 ^ e
         in if 2 ^ 1024 \<le> v then Infinity else Finite v))"

text \<open>
  \<^verbatim>\<open>parseInt\<close> of a run of decimal digits: the Number value for the number they write.
  (Past the 20th significant digit the language lets a host read a digit as 0; the hosts
  in use round the number written, as here.)
\<close>

definition digit_value :: "char \<Rightarrow> nat" where
  "digit_value c = of_char c - 48"

definition parseInt :: "string \<Rightarrow> js_number" where
  "parseInt ds = to_number (foldl (\<lambda>n c. 10 * n + digit_value c) 0 ds)"

text \<open>
  \<^verbatim>\<open>parseWKT\<close>. The parser of the geometry text, \<^verbatim>\<open>wktToGeoJSON\<close> of the betterknown
  library, is an argument; it returns \<^verbatim>\<open>null\<close> or throws on a text it cannot read. The two
  tests are two \<^verbatim>\<open>if\<close> statements, one after the other: the second reads the text that the
  first has left.
\<close>

definition parseWKT ::
  "(string \<Rightarrow> error + 'n geojson option) \<Rightarrow> string \<Rightarrow> error + ('n geojson option \<times> js_number option)" where
  "parseWKT wktToGeoJSON wkt_literal =
     (let wkt0 = trim wkt_literal;
          (srid1, wkt1) =
            (case ewktMatch wkt0 of
               Some (ds, r) \<Rightarrow> (Some (parseInt ds), r)
             | None \<Rightarrow> (None, wkt0));
          (srid2, wkt2) =
            (case ogcMatch wkt1 of
               Some (ds, r) \<Rightarrow> (Some (parseInt ds), r)
             | None \<Rightarrow> (srid1, wkt1))
      in case wktToGeoJSON wkt2 of
           Inl e \<Rightarrow> Inl e
         | Inr geojson \<Rightarrow> Inr (geojson, srid2))"

subsection \<open>Transforming the coordinates\<close>

text \<open>
  \<^verbatim>\<open>transformCoords\<close>, the inner function of \<^verbatim>\<open>transformGeoJSON\<close>. An array whose first
  element is a number goes to \<^verbatim>\<open>transform.forward\<close> as a whole; any other array is mapped
  over, the empty one too. On a number \<^verbatim>\<open>coords[0]\<close> is undefined and \<^verbatim>\<open>coords.map\<close> is
  not a function. \<^verbatim>\<open>forward\<close> is the projection library's and throws on coordinates that
  are not finite numbers.
\<close>

fun transformCoords :: "('n jsarr \<Rightarrow> error + 'n jsarr) \<Rightarrow> 'n jsarr \<Rightarrow> error + 'n jsarr"
  and transformCoords_map ::
    "('n jsarr \<Rightarrow> error + 'n jsarr) \<Rightarrow> 'n jsarr list \<Rightarrow> error + 'n jsarr list" where
  "transformCoords forward (Num x) = Inl (TypeError ''coords.map is not a function'')"
| "transformCoords forward (Arr cs) =
     (case cs of
        Num x # rest \<Rightarrow> forward (Arr cs)
      | _ \<Rightarrow>
          (case transformCoords_map forward cs of
             Inl e \<Rightarrow> Inl e
           | Inr cs' \<Rightarrow> Inr (Arr cs')))"
| "transformCoords_map forward [] = Inr []"
| "transformCoords_map forward (c # cs) =
     (case transformCoords forward c of
        Inl e \<Rightarrow> Inl e
      | Inr c' \<Rightarrow>
          (case transformCoords_map forward cs of
             Inl e \<Rightarrow> Inl e
           | Inr cs' \<Rightarrow> Inr (c' # cs')))"

text \<open>
  The test \<^verbatim>\<open>!geojson.coordinates\<close>: a missing field is falsy, an array is not, and a
  number is falsy when the host says so (0 and NaN are); \<open>falsy\<close> is that test of the
  host on the numbers.
\<close>

definition not_coordinates :: "('n \<Rightarrow> bool) \<Rightarrow> 'n jsarr option \<Rightarrow> bool" where
  "not_coordinates falsy coords =
     (case coords of
        None \<Rightarrow> True
      | Some (Num x) \<Rightarrow> falsy x
      | Some (Arr cs) \<Rightarrow> False)"

text \<open>
  \<^verbatim>\<open>transformGeoJSON\<close>. \<^verbatim>\<open>proj4(fromProj, toProj)\<close> is an argument: it gives the
  \<^verbatim>\<open>forward\<close> function for two projection names, under the definitions registered before
  the call. The object is changed in place; the model returns it.
\<close>

definition transformGeoJSON ::
  "(string \<Rightarrow> string \<Rightarrow> 'n jsarr \<Rightarrow> error + 'n jsarr) \<Rightarrow> ('n \<Rightarrow> bool) \<Rightarrow>
     'n geojson option \<Rightarrow> string \<Rightarrow> string \<Rightarrow> error + 'n geojson option" where
  "transformGeoJSON proj4 falsy geojson fromProj toProj =
     (case geojson of
        None \<Rightarrow> Inr None
      | Some g \<Rightarrow>
          if not_coordinates falsy (coordinates g) then Inr (Some g)
          else
            (case coordinates g of
               None \<Rightarrow> Inr (Some g)
             | Some coords \<Rightarrow>
                 (case transformCoords (proj4 fromProj toProj) coords of
                    Inl e \<Rightarrow> Inl e
                  | Inr coords' \<Rightarrow>
                      Inr (Some (GeoJSON (geometry_type g) (Some coords') (geometries g))))))"

section \<open>The page and its environment\<close>

text \<open>
  The parts of the document that the program writes: the inline \<^verbatim>\<open>style.display\<close> of
  each section (empty until the program sets it), the text of the error message, the
  rows of the property table, the entries of the related-resources list, what the map
  shows, the identifier whose projection definition has been requested from epsg.io, and
  the lines written to the console: the text of a \<^verbatim>\<open>console.log\<close> line, and the fixed
  first words of a \<^verbatim>\<open>console.error\<close> or \<^verbatim>\<open>console.warn\<close> line, which go before the error
  object. The elements themselves are taken to exist.
\<close>

record see_also_item =
  item_title :: string
  item_text :: string
  item_href :: string
  item_new_tab :: bool
  item_type :: string

record 'n page =
  uri_display :: string
  loading_display :: string
  error_message :: string
  error_display :: string
  properties_tbody :: "(string \<times> rdf_term list) list"
  properties_display :: string
  graph_section_display :: string
  wkt_code :: string
  map_display :: string
  map_created :: bool
  geoJsonLayer :: "'n geojson option"
  epsg_request :: "js_number option"
  see_also_loading_display :: string
  see_also_list :: "see_also_item list"
  see_also_display :: string
  console :: "string list"

text \<open>
  What the program reads from outside: the configuration, the location of the page, the
  prefix map as \<^verbatim>\<open>loadPrefixes\<close> has left it, and the collaborators. \<^verbatim>\<open>fetch\<close> takes the
  URL and the \<^verbatim>\<open>Accept\<close> header and gives the response or the error of a rejected
  request; \<^verbatim>\<open>N3_parse\<close> is \<^verbatim>\<open>new N3.Parser().parse\<close>; \<^verbatim>\<open>response_json\<close> reads the body of
  a SPARQL result and gives \<^verbatim>\<open>data.results.bindings\<close>, each binding as the list of its
  variables with the \<^verbatim>\<open>value\<close> of their terms, or the error thrown on the way.
  \<^verbatim>\<open>number_falsy\<close> is the host's test of falsiness on the numbers of a geometry, and
  \<^verbatim>\<open>large_number_text\<close> is the text that the host writes for a Number from \<open>2^53\<close> on.
\<close>

record response =
  ok :: bool
  statusText :: string
  body :: string

type_synonym binding = "(string \<times> string) list"

record 'n env =
  SPARQL_ENDPOINT :: string
  ENTITY_NS :: string
  BASE_URI :: string
  location_origin :: string
  location_pathname :: string
  PREFIXES :: "(string \<times> string) list"
  fetch :: "string \<Rightarrow> string \<Rightarrow> error + response"
  N3_parse :: "string \<Rightarrow> error + quad list"
  response_json :: "string \<Rightarrow> error + binding list"
  encodeURIComponent :: "string \<Rightarrow> string"
  decodeURIComponent :: "string \<Rightarrow> error + string"
  GraphPlugin_draw :: "quad list \<Rightarrow> error + unit"
  wktToGeoJSON :: "string \<Rightarrow> error + 'n geojson option"
  proj4 :: "string \<Rightarrow> string \<Rightarrow> 'n jsarr \<Rightarrow> error + 'n jsarr"
  number_falsy :: "'n \<Rightarrow> bool"
  large_number_text :: "js_number \<Rightarrow> string"

definition console_line :: "string \<Rightarrow> 'n page \<Rightarrow> 'n page" where
  "console_line line page = page\<lparr>console := console page @ [line]\<rparr>"

text \<open>A string or \<^verbatim>\<open>null\<close> inside a template string.\<close>

definition template :: "string option \<Rightarrow> string" where
  "template s = (case s of None \<Rightarrow> ''null'' | Some v \<Rightarrow> v)"

section \<open>map-viewer.js: showing the geometry\<close>

text \<open>
  The table \<^verbatim>\<open>commonProjections\<close> by its keys: \<^verbatim>\<open>commonProjections[sourceSRID]\<close> is
  defined exactly for these numbers.
\<close>

definition commonProjections :: "nat list" where
  "commonProjections = [4326, 3857, 31370, 4258, 3035, 25832, 25833]"

definition has_common_projection :: "js_number \<Rightarrow> bool" where
  "has_common_projection sourceSRID =
     (case sourceSRID of
        Finite n \<Rightarrow> n \<in> set commonProjections
      | Infinity \<Rightarrow> False)"

text \<open>
  A Number in a template string. Below \<open>2^53\<close> the text is the decimal digits of the
  number; from there on it is the text of the host (the shortest digits that read back as
  the number, in exponent notation from \<open>10^21\<close>), which is an argument.
\<close>

fun string_of_nat :: "nat \<Rightarrow> string" where
  "string_of_nat n =
     (if n < 10 then [''0123456789'' ! n]
      else string_of_nat (n div 10) @ [''0123456789'' ! (n mod 10)])"

declare string_of_nat.simps [simp del]

definition number_text :: "(js_number \<Rightarrow> string) \<Rightarrow> js_number \<Rightarrow> string" where
  "number_text large x =
     (case x of
        Finite n \<Rightarrow> if n < 2 ^ 53 then string_of_nat n else large x
      | Infinity \<Rightarrow> ''Infinity'')"

text \<open>
  \<^verbatim>\<open>transformCoordinates\<close>. For an identifier of the table the geometry is transformed
  before the function returns. For any other a line is written to the console, the
  definition is requested from epsg.io and the function returns at once, the geometry
  unchanged.
\<close>

definition transformCoordinates ::
  "'n env \<Rightarrow> 'n page \<Rightarrow> 'n geojson \<Rightarrow> js_number \<Rightarrow> error + ('n geojson \<times> 'n page)" where
  "transformCoordinates env page geojson sourceSRID =
     (if \<not> has_common_projection sourceSRID
      then Inr (geojson,
             (console_line (''Fetching EPSG:'' @ number_text (large_number_text env) sourceSRID @
                '' definition from epsg.io...'') page)\<lparr>epsg_request := Some sourceSRID\<rparr>)
      else
        (case transformGeoJSON (proj4 env) (number_falsy env) (Some geojson)
                (''EPSG:'' @ number_text (large_number_text env) sourceSRID) ''EPSG:4326'' of
           Inl e \<Rightarrow> Inl e
         | Inr None \<Rightarrow> Inr (geojson, page)
         | Inr (Some g) \<Rightarrow> Inr (g, page)))"

text \<open>
  What the pending request does to the geometry object when it is answered: the
  \<^verbatim>\<open>then\<close> callback transforms it, and a failure of the request or of the callback, which
  \<^verbatim>\<open>catch\<close> logs, leaves it as it is.
\<close>

definition epsg_io_answered ::
  "'n env \<Rightarrow> 'n geojson \<Rightarrow> js_number \<Rightarrow> error + string \<Rightarrow> 'n geojson" where
  "epsg_io_answered env geojson sourceSRID answer =
     (case answer of
        Inl e \<Rightarrow> geojson
      | Inr proj4def \<Rightarrow>
          (case transformGeoJSON (proj4 env) (number_falsy env) (Some geojson)
                  (''EPSG:'' @ number_text (large_number_text env) sourceSRID) ''EPSG:4326'' of
             Inr (Some g) \<Rightarrow> g
           | _ \<Rightarrow> geojson))"

text \<open>
  The test \<^verbatim>\<open>srid && srid !== 4326\<close> of \<^verbatim>\<open>initializeMap\<close>: \<^verbatim>\<open>null\<close> and the number 0 are
  both falsy.
\<close>

definition srid_needs_transform :: "js_number option \<Rightarrow> bool" where
  "srid_needs_transform srid =
     ((srid \<noteq> None \<and> srid \<noteq> Some (Finite 0)) \<and> srid \<noteq> Some (Finite 4326))"

text \<open>
  \<^verbatim>\<open>initializeMap\<close>. Everything is inside one \<^verbatim>\<open>try\<close>, whose \<^verbatim>\<open>catch\<close> logs. The map is
  created, the geometry is transformed when \<^verbatim>\<open>srid && srid !== 4326\<close>, and
  \<^verbatim>\<open>addGeoJSONToMap\<close> draws the geometry as it is when \<^verbatim>\<open>transformCoordinates\<close> has
  returned. The calls into the map library are taken to succeed.
\<close>

definition initializeMap :: "'n env \<Rightarrow> 'n page \<Rightarrow> string \<Rightarrow> 'n page" where
  "initializeMap env page wkt_literal =
     (case parseWKT (wktToGeoJSON env) wkt_literal of
        Inl e \<Rightarrow> console_line ''Error initializing map:'' page
      | Inr (None, srid) \<Rightarrow> console_line ''Failed to parse WKT'' page
      | Inr (Some geojson, srid) \<Rightarrow>
          (let page1 = page\<lparr>map_created := True\<rparr> in
           case (if srid_needs_transform srid
                 then (case srid of
                         Some n \<Rightarrow>
                           transformCoordinates env page1 geojson n
                       | None \<Rightarrow> Inr (geojson, page1))
                 else Inr (geojson, page1)) of
             Inl e \<Rightarrow> console_line ''Error initializing map:'' page1
           | Inr (g, page2) \<Rightarrow> page2\<lparr>geoJsonLayer := Some g\<rparr>))"

section \<open>graph-viewer.js\<close>

text \<open>
  \<^verbatim>\<open>initializeGraph\<close>: nothing is drawn for no quads; drawing is the graph plugin's and may
  throw.
\<close>

definition initializeGraph :: "'n env \<Rightarrow> 'n page \<Rightarrow> quad list \<Rightarrow> error + 'n page" where
  "initializeGraph env page quads =
     (if length quads = 0 then Inr page
      else
        (case GraphPlugin_draw env quads of
           Inl e \<Rightarrow> Inl e
         | Inr u \<Rightarrow> Inr (page\<lparr>graph_section_display := ''block''\<rparr>)))"

section \<open>dereferencer.js: loading a resource\<close>

definition showError :: "string \<Rightarrow> 'n page \<Rightarrow> 'n page" where
  "showError msg page =
     page\<lparr>loading_display := ''none'', error_message := msg, error_display := ''block''\<rparr>"

text \<open>
  The URL of a query, built the same way at each request, and the texts of the three
  queries. The texts are written without the line breaks and indentation of the source's
  template strings.
\<close>

definition query_url :: "'n env \<Rightarrow> string \<Rightarrow> string" where
  "query_url env query = SPARQL_ENDPOINT env @ ''?query='' @ encodeURIComponent env query"

definition describeQuery :: "string option \<Rightarrow> string" where
  "describeQuery uri = ''DESCRIBE <'' @ template uri @ ''>''"

definition wktQuery :: "string \<Rightarrow> string" where
  "wktQuery node = ''SELECT ?wkt WHERE { <'' @ node @ ''> <'' @ NS_GSP @ ''asWKT> ?wkt . }''"

definition sameClassQuery :: "string \<Rightarrow> string option \<Rightarrow> string" where
  "sameClassQuery typeURI uri =
     ''SELECT DISTINCT ?resource WHERE { ?resource a <'' @ typeURI @
     ''> . FILTER(?resource != <'' @ template uri @ ''>) } LIMIT 10''"

definition executeSPARQLQuery :: "'n env \<Rightarrow> string \<Rightarrow> error + quad list" where
  "executeSPARQLQuery env query =
     (let url = query_url env query in
      case fetch env url ''application/n-triples'' of
        Inl e \<Rightarrow> Inl e
      | Inr response \<Rightarrow>
          if \<not> ok response then Inl (Error (''SPARQL query failed: '' @ statusText response))
          else N3_parse env (body response))"

text \<open>
  \<^verbatim>\<open>renderProperties\<close>. The table body is emptied first; when the grouping throws, the
  error leaves the function with the page as it is then.
\<close>

definition renderProperties :: "URIDereferencer \<Rightarrow> 'n page \<Rightarrow> (error \<times> 'n page) + 'n page" where
  "renderProperties this page =
     (let page1 = page\<lparr>properties_tbody := []\<rparr> in
      case group_triples (resourceURI this) [] (triples this) of
        Inl e \<Rightarrow> Inl (e, page1)
      | Inr g \<Rightarrow>
          Inr (page1\<lparr>properties_tbody := property_rows g, properties_display := ''block''\<rparr>))"

text \<open>
  \<^verbatim>\<open>checkForGeometry\<close>: first the body of its \<^verbatim>\<open>try\<close>, in which every statement that can
  throw comes before the first one that writes; then the function, whose \<^verbatim>\<open>catch\<close> logs.
  \<^verbatim>\<open>map-viewer.js\<close> is loaded before \<^verbatim>\<open>dereferencer.js\<close>, so
  \<^verbatim>\<open>initializeMap\<close> is a function.
\<close>

definition checkForGeometry_try ::
  "'n env \<Rightarrow> URIDereferencer \<Rightarrow> 'n page \<Rightarrow> string \<Rightarrow> error + (URIDereferencer \<times> 'n page)" where
  "checkForGeometry_try env this page node =
     (let url = query_url env (wktQuery node)
      in case fetch env url ''application/sparql-results+json'' of
           Inl e \<Rightarrow> Inl e
         | Inr response \<Rightarrow>
             if \<not> ok response then Inl (Error ''WKT query failed'')
             else
               (case response_json env (body response) of
                  Inl e \<Rightarrow> Inl e
                | Inr bindings \<Rightarrow>
                    (case bindings of
                       [] \<Rightarrow> Inr (this, page)
                     | b # bs \<Rightarrow>
                         (case map_of b ''wkt'' of
                            None \<Rightarrow> Inl (TypeError ''Cannot read properties of undefined'')
                          | Some w \<Rightarrow>
                              (let this1 = this\<lparr>wktLiteral := Some w\<rparr>;
                                   page1 = page\<lparr>wkt_code := w, map_display := ''block''\<rparr>
                               in Inr (this1,
                                    initializeMap env page1 w))))))"

definition checkForGeometry ::
  "'n env \<Rightarrow> URIDereferencer \<Rightarrow> 'n page \<Rightarrow> URIDereferencer \<times> 'n page" where
  "checkForGeometry env this page =
     (case geometryNode this of
        None \<Rightarrow> (this, page)
      | Some node \<Rightarrow>
          if node = [] then (this, page)
          else
            (case checkForGeometry_try env this page node of
               Inl e \<Rightarrow> (this, console_line ''Error fetching geometry:'' page)
             | Inr r \<Rightarrow> r))"

text \<open>\<^verbatim>\<open>renderSeeAlso\<close> and \<^verbatim>\<open>loadSameClassResources\<close>.\<close>

definition renderSeeAlso :: "'n env \<Rightarrow> 'n page \<Rightarrow> string list \<Rightarrow> string \<Rightarrow> 'n page" where
  "renderSeeAlso env page resources typeURI =
     page\<lparr>see_also_loading_display := ''none'',
          see_also_list :=
            map (\<lambda>r. case makeLocalLink (location_origin env) (ENTITY_NS env) r of
                        Some localLink \<Rightarrow>
                          \<lparr>item_title = r, item_text = shortenURI (PREFIXES env) r,
                           item_href = localLink, item_new_tab = False,
                           item_type = ''Type: '' @ shortenURI (PREFIXES env) typeURI\<rparr>
                      | None \<Rightarrow>
                          \<lparr>item_title = r, item_text = shortenURI (PREFIXES env) r,
                           item_href = r, item_new_tab = True,
                           item_type = ''Type: '' @ shortenURI (PREFIXES env) typeURI\<rparr>)
              resources,
          see_also_display := ''block''\<rparr>"

fun binding_values :: "string \<Rightarrow> binding list \<Rightarrow> error + string list" where
  "binding_values var [] = Inr []"
| "binding_values var (b # bs) =
     (case map_of b var of
        None \<Rightarrow> Inl (TypeError ''Cannot read properties of undefined'')
      | Some v \<Rightarrow>
          (case binding_values var bs of
             Inl e \<Rightarrow> Inl e
           | Inr vs \<Rightarrow> Inr (v # vs)))"

definition loadSameClassResources_try ::
  "'n env \<Rightarrow> URIDereferencer \<Rightarrow> 'n page \<Rightarrow> string \<Rightarrow> error + 'n page" where
  "loadSameClassResources_try env this page typeURI =
     (let url = query_url env (sameClassQuery typeURI (resourceURI this))
      in case fetch env url ''application/sparql-results+json'' of
           Inl e \<Rightarrow> Inl e
         | Inr response \<Rightarrow>
             if \<not> ok response then Inl (Error ''Same-class query failed'')
             else
               (case response_json env (body response) of
                  Inl e \<Rightarrow> Inl e
                | Inr bindings \<Rightarrow>
                    (case binding_values ''resource'' bindings of
                       Inl e \<Rightarrow> Inl e
                     | Inr resources \<Rightarrow>
                         if length resources > 0
                         then Inr (renderSeeAlso env page resources typeURI)
                         else Inr page)))"

definition loadSameClassResources :: "'n env \<Rightarrow> URIDereferencer \<Rightarrow> 'n page \<Rightarrow> 'n page" where
  "loadSameClassResources env this page =
     (case types this of
        [] \<Rightarrow> page
      | typeURI # others \<Rightarrow>
          (case loadSameClassResources_try env this page typeURI of
             Inl e \<Rightarrow>
               (console_line ''Error loading same-class resources:'' page)
                 \<lparr>see_also_loading_display := ''none''\<rparr>
           | Inr page' \<Rightarrow> page'))"

text \<open>
  \<^verbatim>\<open>loadResource\<close>: the body of its \<^verbatim>\<open>try\<close>, where an error leaves with the object and
  the page as they are when it is thrown, and the function with its \<^verbatim>\<open>catch\<close>.
  \<^verbatim>\<open>graph-viewer.js\<close> is loaded, so \<^verbatim>\<open>window.initializeGraph\<close> is a function; its failure
  is caught on the spot.
\<close>

definition loadResource_try ::
  "'n env \<Rightarrow> URIDereferencer \<Rightarrow> 'n page \<Rightarrow>
     (error \<times> URIDereferencer \<times> 'n page) + (URIDereferencer \<times> 'n page)" where
  "loadResource_try env this page =
     (case executeSPARQLQuery env (describeQuery (resourceURI this)) of
        Inl e \<Rightarrow> Inl (e, this, page)
      | Inr ts \<Rightarrow>
          if length ts = 0
          then Inr (this,
                 showError (''No data found for resource: '' @ template (resourceURI this)) page)
          else
            (let this1 = parseResource (this\<lparr>triples := ts\<rparr>) in
             case renderProperties this1 page of
               Inl (e, page1) \<Rightarrow> Inl (e, this1, page1)
             | Inr page2 \<Rightarrow>
                 (let page3 =
                        (case initializeGraph env page2 (triples this1) of
                           Inl graphError \<Rightarrow> console_line ''Graph rendering failed:'' page2
                         | Inr p \<Rightarrow> p);
                      (this2, page4) = checkForGeometry env this1 page3;
                      page5 = loadSameClassResources env this2 page4
                  in Inr (this2, page5\<lparr>loading_display := ''none''\<rparr>))))"

definition loadResource ::
  "'n env \<Rightarrow> URIDereferencer \<Rightarrow> 'n page \<Rightarrow> URIDereferencer \<times> 'n page" where
  "loadResource env this page =
     (case loadResource_try env this (page\<lparr>loading_display := ''block''\<rparr>) of
        Inl (error, this', page') \<Rightarrow>
          (this',
           showError (''Failed to load resource: '' @ message error)
             (console_line ''Error loading resource:'' page'))
      | Inr r \<Rightarrow> r)"

text \<open>
  \<^verbatim>\<open>init\<close>. An error thrown by \<^verbatim>\<open>extractURIFromPath\<close> is caught nowhere: it ends
  \<^verbatim>\<open>init\<close> before anything is written. The document title and the wiring of the
  download links and of the copy button are left out.
\<close>

definition init :: "'n env \<Rightarrow> 'n page \<Rightarrow> error + (URIDereferencer \<times> 'n page)" where
  "init env page =
     (case extractURIFromPath (decodeURIComponent env) (BASE_URI env) (location_pathname env) of
        Inl e \<Rightarrow> Inl e
      | Inr r \<Rightarrow>
          (let this = new_URIDereferencer\<lparr>resourceURI := r\<rparr> in
           if r = None \<or> r = Some []
           then Inr (this,
                  showError ''No URI specified. Please provide a resource URI in the path.'' page)
           else Inr (loadResource env this (page\<lparr>uri_display := template r\<rparr>))))"

section \<open>Notions used in the properties\<close>

text \<open>
  The values that the triples give to a predicate of a resource, in the order of the
  triples.
\<close>

definition values_of :: "string option \<Rightarrow> string \<Rightarrow> quad list \<Rightarrow> rdf_term list" where
  "values_of uri p ts =
     map object (filter (\<lambda>t. Some (term_value (subject t)) = uri \<and> term_value (predicate t) = p) ts)"

text \<open>A page on which nothing has been written yet, for the examples.\<close>

definition empty_page :: "'n page" where
  "empty_page =
     \<lparr>uri_display = [], loading_display = [], error_message = [], error_display = [],
      properties_tbody = [], properties_display = [], graph_section_display = [],
      wkt_code = [], map_display = [], map_created = False, geoJsonLayer = None,
      epsg_request = None, see_also_loading_display = [], see_also_list = [],
      see_also_display = [], console = []\<rparr>"

text \<open>
  The two prefixed forms of a spatial literal, as the format list describes them: a text
  \<open>t\<close> that is \<open>SRID\<close> in any case, \<open>=\<close>, digits \<open>ds\<close>, \<open>;\<close> and a rest \<open>r\<close> on one line;
  and a text that is the CRS URI in angle brackets (in any case) with digits \<open>ds\<close> at its
  end, white space \<open>ws\<close> and a rest \<open>r\<close> on one line.
\<close>

definition ewkt_form :: "string \<Rightarrow> string \<Rightarrow> string \<Rightarrow> string \<Rightarrow> bool" where
  "ewkt_form t s ds r =
     (t = s @ ''='' @ ds @ '';'' @ r \<and> map to_lower s = ''srid'' \<and> ds \<noteq> [] \<and>
      list_all is_digit ds \<and> r \<noteq> [] \<and> \<not> (\<exists>c \<in> set r. is_line_terminator c))"

definition ogc_form :: "string \<Rightarrow> string \<Rightarrow> string \<Rightarrow> string \<Rightarrow> string \<Rightarrow> bool" where
  "ogc_form t p ds ws r =
     (t = p @ ds @ ''>'' @ ws @ r \<and>
      map to_lower p = ''<http://www.opengis.net/def/crs/epsg/0/'' \<and> ds \<noteq> [] \<and>
      list_all is_digit ds \<and> ws \<noteq> [] \<and> list_all is_space ws \<and> r \<noteq> [] \<and>
      \<not> is_space (hd r) \<and> \<not> (\<exists>c \<in> set r. is_line_terminator c))"

text \<open>
  A stand-in for the geometry parser in the examples: it answers with a geometry whose
  type is the text it was given, so that an example shows which text reaches the parser.
\<close>

definition given_text :: "string \<Rightarrow> error + real geojson option" where
  "given_text s = Inr (Some (GeoJSON s None []))"







text \<open>
  Stand-ins for the collaborators in the examples, with real numbers for the numbers of
  the host: a geometry parser that knows five texts, a projection that adds 1 to both
  coordinates of a pair and fails on anything else, an environment built on them for a
  page opened in testing mode, a network on which every request is rejected, and the
  environment without network.
\<close>

definition demo_parser :: "string \<Rightarrow> error + real geojson option" where
  "demo_parser s =
     (if s = ''POINT(150000 150000)''
      then Inr (Some (GeoJSON ''Point'' (Some (Arr [Num 150000, Num 150000])) []))
      else if s = ''POINT(4.35 50.85)''
      then Inr (Some (GeoJSON ''Point'' (Some (Arr [Num 4.35, Num 50.85])) []))
      else if s = ''POINT Z (1 2 3)''
      then Inr (Some (GeoJSON ''Point'' (Some (Arr [Num 1, Num 2, Num 3])) []))
      else if s = ''LINESTRING(0 0,1 1)''
      then Inr (Some (GeoJSON ''LineString''
             (Some (Arr [Arr [Num 0, Num 0], Arr [Num 1, Num 1]])) []))
      else if s = ''GEOMETRYCOLLECTION(POINT(1 2))''
      then Inr (Some (GeoJSON ''GeometryCollection'' None
             [GeoJSON ''Point'' (Some (Arr [Num 1, Num 2])) []]))
      else Inr None)"

definition demo_proj4 :: "string \<Rightarrow> string \<Rightarrow> real jsarr \<Rightarrow> error + real jsarr" where
  "demo_proj4 fromProj toProj c =
     (case c of
        Arr [Num x, Num y] \<Rightarrow> Inr (Arr [Num (x + 1), Num (y + 1)])
      | _ \<Rightarrow> Inl (TypeError ''coordinates must be finite numbers''))"

definition demo_env ::
  "(string \<Rightarrow> string \<Rightarrow> error + response) \<Rightarrow> (string \<Rightarrow> error + quad list) \<Rightarrow>
     (string \<Rightarrow> error + binding list) \<Rightarrow> real env" where
  "demo_env f n j =
     \<lparr>SPARQL_ENDPOINT = ''https://jena.matdata.eu/rinf/sparql'',
      ENTITY_NS = ''https://data.matdata.eu'',
      BASE_URI = ''http://localhost:8080'',
      location_origin = ''http://localhost:8080'',
      location_pathname = ''/https://data.matdata.eu/r'',
      PREFIXES = [(''http://www.w3.org/2000/01/rdf-schema#'', ''rdfs'')],
      fetch = f, N3_parse = n, response_json = j,
      encodeURIComponent = id, decodeURIComponent = Inr,
      GraphPlugin_draw = (\<lambda>quads. Inr ()),
      wktToGeoJSON = demo_parser, proj4 = demo_proj4,
      number_falsy = (\<lambda>x. x = 0), large_number_text = (\<lambda>x. ''1e+21'')\<rparr>"

definition no_network :: "string \<Rightarrow> string \<Rightarrow> error + response" where
  "no_network url accept = Inl (TypeError ''Failed to fetch'')"

definition offline_env :: "real env" where
  "offline_env = demo_env no_network (\<lambda>body. Inr []) (\<lambda>body. Inr [])"

text \<open>
  Stand-ins for the network in the examples: three responses, a \<^verbatim>\<open>fetch\<close> that answers
  the DESCRIBE request, the geometry request and the related-resources request with three
  given outcomes, a triple parser and a reader of result bindings that each know a few
  bodies, and the object of a page opened on one resource.
\<close>

definition ok_response :: "string \<Rightarrow> error + response" where
  "ok_response b = Inr \<lparr>ok = True, statusText = ''OK'', body = b\<rparr>"

definition failed_response :: "string \<Rightarrow> error + response" where
  "failed_response st = Inr \<lparr>ok = False, statusText = st, body = []\<rparr>"

definition no_network_response :: "error + response" where
  "no_network_response = Inl (TypeError ''Failed to fetch'')"

definition demo_fetch ::
  "(error + response) \<Rightarrow> (error + response) \<Rightarrow> (error + response) \<Rightarrow> string \<Rightarrow> string \<Rightarrow>
     error + response" where
  "demo_fetch describe wkt related url accept =
     (if accept = ''application/n-triples'' then describe
      else if startsWith url ''https://jena.matdata.eu/rinf/sparql?query=SELECT ?wkt'' then wkt
      else related)"

definition demo_triples :: "quad list" where
  "demo_triples =
     [\<lparr>subject = NamedNode ''https://data.matdata.eu/r'',
       predicate = NamedNode ''http://www.w3.org/2000/01/rdf-schema#label'',
       object = Literal ''a resource'' ''en'' ''http://www.w3.org/1999/02/22-rdf-syntax-ns#langString''\<rparr>,
      \<lparr>subject = NamedNode ''https://data.matdata.eu/r'',
       predicate = NamedNode ''http://www.w3.org/1999/02/22-rdf-syntax-ns#type'',
       object = NamedNode ''https://data.matdata.eu/Class''\<rparr>,
      \<lparr>subject = NamedNode ''https://data.matdata.eu/r'',
       predicate = NamedNode ''http://www.opengis.net/ont/geosparql#hasGeometry'',
       object = NamedNode ''https://data.matdata.eu/g''\<rparr>]"

definition demo_N3_parse :: "string \<Rightarrow> error + quad list" where
  "demo_N3_parse b =
     (if b = ''described'' then Inr demo_triples
      else if b = ''prototype name'' then
        Inr [\<lparr>subject = NamedNode ''https://data.matdata.eu/r'',
              predicate = NamedNode ''constructor'',
              object = Literal ''first'' [] ''http://www.w3.org/2001/XMLSchema#string''\<rparr>,
             \<lparr>subject = NamedNode ''https://data.matdata.eu/r'',
              predicate = NamedNode ''constructor'',
              object = Literal ''second'' [] ''http://www.w3.org/2001/XMLSchema#string''\<rparr>]
      else if b = [] then Inr []
      else Inl (Error ''Unexpected token on line 1.''))"

definition demo_json :: "string \<Rightarrow> error + binding list" where
  "demo_json b =
     (if b = ''point'' then Inr [[(''wkt'', ''SRID=31370;POINT(150000 150000)'')]]
      else if b = ''unreadable'' then Inr [[(''wkt'', ''POINT(150000'')]]
      else if b = ''unprojectable'' then Inr [[(''wkt'', ''SRID=31370;POINT Z (1 2 3)'')]]
      else if b = ''no variable'' then Inr [[(''other'', ''a value'')]]
      else if b = ''related'' then
        Inr [[(''resource'', ''https://data.matdata.eu/r2'')], [(''resource'', ''http://other.org/r3'')]]
      else Inl (Error ''Unexpected token in JSON''))"

definition demo_this :: URIDereferencer where
  "demo_this = new_URIDereferencer\<lparr>resourceURI := Some ''https://data.matdata.eu/r''\<rparr>"

section \<open>Properties of the URI resolver\<close>

lemma startsWith_append [simp]: "startsWith (p @ s) p"
  by (simp add: startsWith_def)

text \<open>
  C2. A link is produced exactly for the URIs that start with the entity namespace. When
  the page's origin equals the namespace the link is the rest of the URI after the
  namespace, or \<open>/\<close> when nothing is left; when the origin differs the link is \<open>/\<close>
  followed by the whole URI.
\<close>

theorem makeLocalLink_spec:
  "(makeLocalLink origin N u \<noteq> None \<longleftrightarrow> startsWith u N) \<and>
   (startsWith u N \<and> origin = N \<longrightarrow>
      makeLocalLink origin N u =
        Some (if drop (length N) u = [] then ''/'' else drop (length N) u)) \<and>
   (startsWith u N \<and> origin \<noteq> N \<longrightarrow> makeLocalLink origin N u = Some (CHR ''/'' # u))"
  by (simp add: makeLocalLink_def substring_def)

theorem makeLocalLink_spec_witness:
  "startsWith ''https://data.matdata.eu/_x'' ''https://data.matdata.eu'' \<and>
   makeLocalLink ''https://data.matdata.eu'' ''https://data.matdata.eu''
     ''https://data.matdata.eu/_x'' = Some ''/_x'' \<and>
   makeLocalLink ''https://data.matdata.eu'' ''https://data.matdata.eu''
     ''https://data.matdata.eu'' = Some ''/'' \<and>
   makeLocalLink ''http://localhost:8080'' ''https://data.matdata.eu''
     ''https://data.matdata.eu/_x'' = Some ''/https://data.matdata.eu/_x'' \<and>
   makeLocalLink ''http://localhost:8080'' ''https://data.matdata.eu''
     ''http://example.org/r'' = None"
  using makeLocalLink_spec [of "''https://data.matdata.eu''" "''https://data.matdata.eu''"
      "''https://data.matdata.eu/_x''"]
    makeLocalLink_spec [of "''https://data.matdata.eu''" "''https://data.matdata.eu''"
      "''https://data.matdata.eu''"]
    makeLocalLink_spec [of "''http://localhost:8080''" "''https://data.matdata.eu''"
      "''https://data.matdata.eu/_x''"]
    makeLocalLink_spec [of "''http://localhost:8080''" "''https://data.matdata.eu''"
      "''http://example.org/r''"]
  by (simp add: startsWith_def)

text \<open>
  C1, as the code has it. The path is read without its first character. An empty path,
  \<open>/\<close> and also \<open>//\<close> (the rest is then the single character \<open>/\<close>, which the code
  tests for) give \<^verbatim>\<open>null\<close>. A rest that starts with \<open>http://\<close> or \<open>https://\<close> is handed
  to the decoder, whose result, or whose error, is the result. Every other rest that is
  neither empty nor \<open>/\<close> is appended to the base origin and a \<open>/\<close>, unchanged.
\<close>

theorem extractURIFromPath_spec:
  "extractURIFromPath dec base [] = Inr None \<and>
   extractURIFromPath dec base ''/'' = Inr None \<and>
   extractURIFromPath dec base ''//'' = Inr None \<and>
   (startsWith r ''http://'' \<or> startsWith r ''https://'' \<longrightarrow>
      extractURIFromPath dec base (CHR ''/'' # r) = map_sum id Some (dec r)) \<and>
   (r \<noteq> [] \<and> r \<noteq> ''/'' \<and> \<not> startsWith r ''http://'' \<and> \<not> startsWith r ''https://'' \<longrightarrow>
      extractURIFromPath dec base (CHR ''/'' # r) = Inr (Some (base @ ''/'' @ r)))"
  by (auto simp add: extractURIFromPath_def substring_def startsWith_def split: sum.splits)

theorem extractURIFromPath_spec_witness:
  "extractURIFromPath Inr ''https://data.matdata.eu'' ''/http://example.org/resource''
     = Inr (Some ''http://example.org/resource'') \<and>
   extractURIFromPath Inr ''https://data.matdata.eu'' ''/ftp://example.org/resource''
     = Inr (Some ''https://data.matdata.eu/ftp://example.org/resource'') \<and>
   extractURIFromPath Inr ''https://data.matdata.eu'' ''/HTTP://example.org''
     = Inr (Some ''https://data.matdata.eu/HTTP://example.org'')"
  using extractURIFromPath_spec [of Inr "''https://data.matdata.eu''" "''http://example.org/resource''"]
    extractURIFromPath_spec [of Inr "''https://data.matdata.eu''" "''ftp://example.org/resource''"]
    extractURIFromPath_spec [of Inr "''https://data.matdata.eu''" "''HTTP://example.org''"]
  by (simp add: startsWith_def)

text \<open>
  The claim as stated fails at the path \<open>//\<close>: the rest \<open>/\<close> is not empty and starts with
  neither scheme, yet the result is \<^verbatim>\<open>null\<close> and not the base origin followed by \<open>//\<close>.
\<close>

theorem extractURIFromPath_counterexample:
  "''/'' \<noteq> [] \<and> \<not> startsWith ''/'' ''http://'' \<and> \<not> startsWith ''/'' ''https://'' \<and>
   extractURIFromPath Inr ''https://data.matdata.eu'' ''//'' = Inr None \<and>
   extractURIFromPath Inr ''https://data.matdata.eu'' ''//''
     \<noteq> Inr (Some (''https://data.matdata.eu'' @ ''/'' @ ''/''))"
  by (simp add: extractURIFromPath_def substring_def startsWith_def)

text \<open>What the page shows for the \<^verbatim>\<open>null\<close> result: the message of \<^verbatim>\<open>init\<close>, and no query.\<close>

lemma init_no_uri:
  "extractURIFromPath (decodeURIComponent env) (BASE_URI env) (location_pathname env) = Inr None \<Longrightarrow>
   init env page =
     Inr (new_URIDereferencer,
          page\<lparr>loading_display := ''none'',
               error_message := ''No URI specified. Please provide a resource URI in the path.'',
               error_display := ''block''\<rparr>)"
  by (simp add: init_def showError_def new_URIDereferencer_def)

section \<open>Properties of the prefix shortener\<close>

lemma shortenURI_no_match:
  "\<forall>(n, q) \<in> set entries. \<not> startsWith u n \<Longrightarrow> shortenURI entries u = u"
  by (induction entries) auto

lemma shortenURI_first_match:
  "\<forall>(n, q) \<in> set pre. \<not> startsWith u n \<Longrightarrow> startsWith u ns \<Longrightarrow>
   shortenURI (pre @ (ns, p) # post) u = p @ '':'' @ drop (length ns) u"
  by (induction pre) (auto simp add: substring_def)

text \<open>
  C7. The first entry of the scan whose namespace the URI starts with decides: the
  result is its prefix, a colon and the URI after the namespace. A URI that starts with
  no namespace is returned unchanged; so shortening is idempotent on a result that starts
  with no namespace.
\<close>

theorem shortenURI_spec:
  "(entries = pre @ (ns, p) # post \<and> (\<forall>(n, q) \<in> set pre. \<not> startsWith u n) \<and> startsWith u ns \<longrightarrow>
      shortenURI entries u = p @ '':'' @ drop (length ns) u) \<and>
   ((\<forall>(n, q) \<in> set entries. \<not> startsWith u n) \<longrightarrow> shortenURI entries u = u) \<and>
   ((\<forall>(n, q) \<in> set entries. \<not> startsWith (shortenURI entries u) n) \<longrightarrow>
      shortenURI entries (shortenURI entries u) = shortenURI entries u)"
  using shortenURI_no_match shortenURI_first_match by blast

theorem shortenURI_spec_witness:
  "shortenURI [(''http://www.w3.org/2000/01/rdf-schema#'', ''rdfs''),
               (''http://www.w3.org/'', ''w3''),
               (''http://www.w3.org/2002/07/owl#'', ''owl'')]
     ''http://www.w3.org/2002/07/owl#Class'' = ''w3:2002/07/owl#Class'' \<and>
   shortenURI [(''http://www.w3.org/2000/01/rdf-schema#'', ''rdfs'')] ''rdfs:label'' = ''rdfs:label'' \<and>
   shortenURI [(''http://www.w3.org/2000/01/rdf-schema#'', ''rdfs'')]
     (shortenURI [(''http://www.w3.org/2000/01/rdf-schema#'', ''rdfs'')]
        ''http://www.w3.org/2000/01/rdf-schema#label'') = ''rdfs:label''"
  using shortenURI_spec [of
      "[(''http://www.w3.org/2000/01/rdf-schema#'', ''rdfs''), (''http://www.w3.org/'', ''w3''),
        (''http://www.w3.org/2002/07/owl#'', ''owl'')]"
      "[(''http://www.w3.org/2000/01/rdf-schema#'', ''rdfs'')]"
      "''http://www.w3.org/''" "''w3''" "[(''http://www.w3.org/2002/07/owl#'', ''owl'')]"
      "''http://www.w3.org/2002/07/owl#Class''"]
    shortenURI_spec [of "[(''http://www.w3.org/2000/01/rdf-schema#'', ''rdfs'')]" "[]"
      "''http://www.w3.org/2000/01/rdf-schema#''" "''rdfs''" "[]" "''rdfs:label''"]
    shortenURI_spec [of "[(''http://www.w3.org/2000/01/rdf-schema#'', ''rdfs'')]" "[]"
      "''http://www.w3.org/2000/01/rdf-schema#''" "''rdfs''" "[]"
      "''http://www.w3.org/2000/01/rdf-schema#label''"]
  by (simp add: startsWith_def substring_def)

section \<open>Properties of the triples of a resource\<close>

text \<open>
  C6. On an object whose geometry node is still \<^verbatim>\<open>null\<close>, as the constructor leaves it,
  \<^verbatim>\<open>parseResource\<close> leaves it \<^verbatim>\<open>null\<close> when no triple has the predicate \<open>hasGeometry\<close>,
  and otherwise sets it to the value of the object of the first such triple, whatever
  follows that triple.
\<close>

theorem parseResource_geometryNode:
  "geometryNode this = None \<Longrightarrow>
   ((\<forall>t \<in> set (triples this). term_value (predicate t) \<noteq> NS_GSP @ ''hasGeometry'') \<longrightarrow>
      geometryNode (parseResource this) = None) \<and>
   (triples this = pre @ t # post \<and>
    (\<forall>x \<in> set pre. term_value (predicate x) \<noteq> NS_GSP @ ''hasGeometry'') \<and>
    term_value (predicate t) = NS_GSP @ ''hasGeometry'' \<longrightarrow>
      geometryNode (parseResource this) = Some (term_value (object t)))"
  by (auto simp add: parseResource_def Let_def filter_empty_conv)

theorem parseResource_geometryNode_witness:
  "geometryNode (parseResource (new_URIDereferencer\<lparr>triples :=
      [\<lparr>subject = NamedNode ''http://e.org/r'',
        predicate = NamedNode ''http://www.w3.org/1999/02/22-rdf-syntax-ns#type'',
        object = NamedNode ''http://e.org/Class''\<rparr>,
       \<lparr>subject = NamedNode ''http://e.org/r'',
        predicate = NamedNode ''http://www.opengis.net/ont/geosparql#hasGeometry'',
        object = NamedNode ''http://e.org/g1''\<rparr>,
       \<lparr>subject = NamedNode ''http://e.org/r'',
        predicate = NamedNode ''http://www.opengis.net/ont/geosparql#hasGeometry'',
        object = NamedNode ''http://e.org/g2''\<rparr>]\<rparr>)) = Some ''http://e.org/g1'' \<and>
   geometryNode (parseResource (new_URIDereferencer\<lparr>triples :=
      [\<lparr>subject = NamedNode ''http://e.org/r'',
        predicate = NamedNode ''http://www.w3.org/1999/02/22-rdf-syntax-ns#type'',
        object = NamedNode ''http://e.org/Class''\<rparr>]\<rparr>)) = None"
  using parseResource_geometryNode [of
      "new_URIDereferencer\<lparr>triples :=
        [\<lparr>subject = NamedNode ''http://e.org/r'',
          predicate = NamedNode ''http://www.w3.org/1999/02/22-rdf-syntax-ns#type'',
          object = NamedNode ''http://e.org/Class''\<rparr>,
         \<lparr>subject = NamedNode ''http://e.org/r'',
          predicate = NamedNode ''http://www.opengis.net/ont/geosparql#hasGeometry'',
          object = NamedNode ''http://e.org/g1''\<rparr>,
         \<lparr>subject = NamedNode ''http://e.org/r'',
          predicate = NamedNode ''http://www.opengis.net/ont/geosparql#hasGeometry'',
          object = NamedNode ''http://e.org/g2''\<rparr>]\<rparr>"
      "[\<lparr>subject = NamedNode ''http://e.org/r'',
         predicate = NamedNode ''http://www.w3.org/1999/02/22-rdf-syntax-ns#type'',
         object = NamedNode ''http://e.org/Class''\<rparr>]"
      "\<lparr>subject = NamedNode ''http://e.org/r'',
        predicate = NamedNode ''http://www.opengis.net/ont/geosparql#hasGeometry'',
        object = NamedNode ''http://e.org/g1''\<rparr>"
      "[\<lparr>subject = NamedNode ''http://e.org/r'',
         predicate = NamedNode ''http://www.opengis.net/ont/geosparql#hasGeometry'',
         object = NamedNode ''http://e.org/g2''\<rparr>]"]
    parseResource_geometryNode [of
      "new_URIDereferencer\<lparr>triples :=
        [\<lparr>subject = NamedNode ''http://e.org/r'',
          predicate = NamedNode ''http://www.w3.org/1999/02/22-rdf-syntax-ns#type'',
          object = NamedNode ''http://e.org/Class''\<rparr>]\<rparr>" "[]"
      "\<lparr>subject = NamedNode ''http://e.org/r'',
        predicate = NamedNode ''http://www.w3.org/1999/02/22-rdf-syntax-ns#type'',
        object = NamedNode ''http://e.org/Class''\<rparr>" "[]"]
  by (simp add: new_URIDereferencer_def NS_GSP_def)

subsection \<open>The property table\<close>

lemma map_fst_grouped_set:
  "map fst (grouped_set g k vs) = (if k \<in> fst ` set g then map fst g else map fst g @ [k])"
  by (auto simp add: grouped_set_def case_prod_unfold)

lemma map_of_map_replace:
  "map_of (map (\<lambda>(k', vs'). if k' = k then (k', vs) else (k', vs')) h) k'' =
     (if k'' = k then map_option (\<lambda>_. vs) (map_of h k) else map_of h k'')"
  by (induction h) (auto simp add: case_prod_unfold)

lemma keys_grouped_set: "fst ` set (grouped_set g k vs) = insert k (fst ` set g)"
  using arg_cong [OF map_fst_grouped_set, of set g k vs]
  by (auto split: if_splits)

lemma map_of_grouped_set: "map_of (grouped_set g k vs) = (map_of g)(k \<mapsto> vs)"
proof (cases "k \<in> fst ` set g")
  case True
  then obtain v where "map_of g k = Some v"
    by (metis map_of_eq_None_iff not_Some_eq)
  with True show ?thesis
    by (simp add: grouped_set_def fun_eq_iff map_of_map_replace)
next
  case False
  then have "map_of g k = None" by (simp add: map_of_eq_None_iff)
  with False show ?thesis
    by (auto simp add: grouped_set_def fun_eq_iff map_add_def split: option.splits)
qed

lemma group_triple_other:
  "Some (term_value (subject t)) \<noteq> uri \<Longrightarrow> group_triple uri g t = Inr g"
  by (simp add: group_triple_def)

lemma group_triple_match:
  assumes "Some (term_value (subject t)) = uri"
    and "term_value (predicate t) \<notin> set object_prototype_keys"
  shows "\<exists>g'. group_triple uri g t = Inr g' \<and>
           map_of g' = (map_of g)(term_value (predicate t) \<mapsto>
                          own_values g (term_value (predicate t)) @ [object t]) \<and>
           map fst g' = (if term_value (predicate t) \<in> fst ` set g then map fst g
                         else map fst g @ [term_value (predicate t)])"
proof (cases "map_of g (term_value (predicate t))")
  case None
  then have notin: "term_value (predicate t) \<notin> fst ` set g"
    by (simp add: map_of_eq_None_iff)
  from None assms show ?thesis
    by (simp add: group_triple_def grouped_get_def own_values_def Let_def
        map_of_grouped_set map_fst_grouped_set keys_grouped_set notin)
next
  case (Some vs)
  then have "term_value (predicate t) \<in> fst ` set g"
    by (metis map_of_eq_None_iff option.distinct(1))
  with Some assms show ?thesis
    by (simp add: group_triple_def grouped_get_def own_values_def Let_def
        map_of_grouped_set map_fst_grouped_set keys_grouped_set)
qed

lemma group_triples_inv:
  assumes "\<forall>t \<in> set ts. Some (term_value (subject t)) = uri \<longrightarrow>
             term_value (predicate t) \<notin> set object_prototype_keys"
  shows "\<exists>g'. group_triples uri g ts = Inr g' \<and>
           (\<forall>p. own_values g' p = own_values g p @ values_of uri p ts) \<and>
           set (map fst g') = set (map fst g) \<union>
             {term_value (predicate t) | t. t \<in> set ts \<and> Some (term_value (subject t)) = uri} \<and>
           (distinct (map fst g) \<longrightarrow> distinct (map fst g'))"
  using assms
proof (induction ts arbitrary: g)
  case Nil
  then show ?case by (simp add: values_of_def)
next
  case (Cons t ts)
  show ?case
  proof (cases "Some (term_value (subject t)) = uri")
    case False
    then have step: "group_triple uri g t = Inr g" by (simp add: group_triple_other)
    from Cons.prems have "\<forall>t \<in> set ts. Some (term_value (subject t)) = uri \<longrightarrow>
             term_value (predicate t) \<notin> set object_prototype_keys" by simp
    from Cons.IH [OF this, of g] obtain g' where
      g': "group_triples uri g ts = Inr g'"
        "\<forall>p. own_values g' p = own_values g p @ values_of uri p ts"
        "set (map fst g') = set (map fst g) \<union>
             {term_value (predicate t) | t. t \<in> set ts \<and> Some (term_value (subject t)) = uri}"
        "distinct (map fst g) \<longrightarrow> distinct (map fst g')" by blast
    from False g' step show ?thesis
      by (auto simp add: values_of_def)
  next
    case True
    with Cons.prems have "term_value (predicate t) \<notin> set object_prototype_keys" by simp
    from group_triple_match [OF True this, of g] obtain g1 where
      g1: "group_triple uri g t = Inr g1"
        "map_of g1 = (map_of g)(term_value (predicate t) \<mapsto>
                          own_values g (term_value (predicate t)) @ [object t])"
        "map fst g1 = (if term_value (predicate t) \<in> fst ` set g then map fst g
                         else map fst g @ [term_value (predicate t)])" by blast
    from Cons.prems have "\<forall>t \<in> set ts. Some (term_value (subject t)) = uri \<longrightarrow>
             term_value (predicate t) \<notin> set object_prototype_keys" by simp
    from Cons.IH [OF this, of g1] obtain g' where
      g': "group_triples uri g1 ts = Inr g'"
        "\<forall>p. own_values g' p = own_values g1 p @ values_of uri p ts"
        "set (map fst g') = set (map fst g1) \<union>
             {term_value (predicate t) | t. t \<in> set ts \<and> Some (term_value (subject t)) = uri}"
        "distinct (map fst g1) \<longrightarrow> distinct (map fst g')" by blast
    have ov: "own_values g1 p = own_values g p @ (if p = term_value (predicate t) then [object t] else [])" for p
      by (simp add: own_values_def g1(2))
    have keys: "set (map fst g1) = insert (term_value (predicate t)) (set (map fst g))"
      by (auto simp add: g1(3))
    have dist: "distinct (map fst g) \<longrightarrow> distinct (map fst g1)"
      by (auto simp add: g1(3))
    have 1: "group_triples uri g (t # ts) = Inr g'" by (simp add: g1(1) g'(1))
    have 2: "\<forall>p. own_values g' p = own_values g p @ values_of uri p (t # ts)"
      using True by (simp add: g'(2) ov values_of_def)
    have 3: "set (map fst g') = set (map fst g) \<union>
             {term_value (predicate x) | x. x \<in> set (t # ts) \<and> Some (term_value (subject x)) = uri}"
      unfolding g'(3) keys using True by auto
    from 1 2 3 dist g'(4) show ?thesis by blast
  qed
qed

lemma sort_distinct_eq:
  fixes xs ys :: "('a::linorder) list"
  assumes "distinct xs" "set xs = set ys"
  shows "sort xs = sort (remdups ys)"
proof -
  have "sorted (sort xs)" "distinct (sort xs)" "set (sort xs) = set ys"
    using assms by simp_all
  moreover have "sorted (sort (remdups ys))" "distinct (sort (remdups ys))"
    "set (sort (remdups ys)) = set ys" by simp_all
  ultimately show ?thesis by (metis sorted_distinct_set_unique)
qed

lemma property_rows_keys: "map fst (property_rows g) = sort (map fst g)"
  by (simp add: property_rows_def comp_def)

lemma iri_not_prototype_key: "CHR '':'' \<in> set s \<Longrightarrow> s \<notin> set object_prototype_keys"
  by (auto simp add: object_prototype_keys_def)

text \<open>
  The table for a resource URI \<open>u\<close> and triples none of whose predicates, on a triple of
  subject \<open>u\<close>, is a property name of \<^verbatim>\<open>Object.prototype\<close> (no URI with a scheme is one:
  none of these names holds a colon): \<^verbatim>\<open>renderProperties\<close> succeeds and shows the table.
  There is one row for each predicate of the triples whose subject is \<open>u\<close>, the rows
  are in strictly ascending lexicographic order of the predicate strings, and a row
  holds the objects of exactly the triples with subject \<open>u\<close> and that predicate, in the
  order of the triples. The example has two triples that share a predicate and have
  distinct objects: they give one row with the two values in their order.
\<close>

lemma renderProperties_groups:
  assumes "resourceURI this = Some u"
    and "\<forall>t \<in> set (triples this). term_value (subject t) = u \<longrightarrow>
           term_value (predicate t) \<notin> set object_prototype_keys"
  shows "\<exists>page'. renderProperties this page = Inr page' \<and>
           properties_display page' = ''block'' \<and>
           properties_tbody page' =
             map (\<lambda>p. (p, map object (filter (\<lambda>t. term_value (subject t) = u \<and>
                                                  term_value (predicate t) = p) (triples this))))
               (sort (remdups (map (\<lambda>t. term_value (predicate t))
                  (filter (\<lambda>t. term_value (subject t) = u) (triples this))))) \<and>
           sorted (map fst (properties_tbody page')) \<and>
           distinct (map fst (properties_tbody page'))"
proof -
  from assms(2) have "\<forall>t \<in> set (triples this). Some (term_value (subject t)) = Some u \<longrightarrow>
           term_value (predicate t) \<notin> set object_prototype_keys" by simp
  from group_triples_inv [OF this, of "[]"] obtain g where
    g: "group_triples (Some u) [] (triples this) = Inr g"
      "\<forall>p. own_values g p = own_values [] p @ values_of (Some u) p (triples this)"
      "set (map fst g) = set (map fst ([] :: grouped)) \<union>
         {term_value (predicate t) | t. t \<in> set (triples this) \<and> Some (term_value (subject t)) = Some u}"
      "distinct (map fst ([] :: grouped)) \<longrightarrow> distinct (map fst g)" by blast
  let ?keys = "map (\<lambda>t. term_value (predicate t))
                  (filter (\<lambda>t. term_value (subject t) = u) (triples this))"
  have "distinct (map fst g)" using g(4) by simp
  moreover have "set (map fst g) = set ?keys" using g(3) by auto
  ultimately have keys: "sort (map fst g) = sort (remdups ?keys)"
    by (rule sort_distinct_eq)
  have vals: "own_values g p = map object (filter (\<lambda>t. term_value (subject t) = u \<and>
                                                  term_value (predicate t) = p) (triples this))" for p
    using g(2) by (simp add: own_values_def values_of_def)
  have rows: "property_rows g =
      map (\<lambda>p. (p, map object (filter (\<lambda>t. term_value (subject t) = u \<and>
                                                  term_value (predicate t) = p) (triples this))))
        (sort (remdups ?keys))"
    by (simp add: property_rows_def keys vals)
  have "map fst (property_rows g) = sort (remdups ?keys)"
    by (simp add: property_rows_keys keys)
  then have "sorted (map fst (property_rows g))" "distinct (map fst (property_rows g))"
    by simp_all
  with rows g(1) assms(1) show ?thesis
    by (simp add: renderProperties_def)
qed

lemma renderProperties_groups_example:
  "map_sum fst properties_tbody
     (renderProperties
        (new_URIDereferencer\<lparr>resourceURI := Some ''http://e.org/r'', triples :=
           [\<lparr>subject = NamedNode ''http://e.org/r'', predicate = NamedNode ''http://e.org/p'',
             object = Literal ''second'' [] ''http://www.w3.org/2001/XMLSchema#string''\<rparr>,
            \<lparr>subject = NamedNode ''http://e.org/other'', predicate = NamedNode ''http://e.org/p'',
             object = NamedNode ''http://e.org/x''\<rparr>,
            \<lparr>subject = NamedNode ''http://e.org/r'', predicate = NamedNode ''http://e.org/a'',
             object = NamedNode ''http://e.org/y''\<rparr>,
            \<lparr>subject = NamedNode ''http://e.org/r'', predicate = NamedNode ''http://e.org/p'',
             object = Literal ''first'' [] ''http://www.w3.org/2001/XMLSchema#string''\<rparr>]\<rparr>)
        (empty_page :: real page)) =
   Inr [(''http://e.org/a'', [NamedNode ''http://e.org/y'']),
        (''http://e.org/p'',
           [Literal ''second'' [] ''http://www.w3.org/2001/XMLSchema#string'',
            Literal ''first'' [] ''http://www.w3.org/2001/XMLSchema#string''])]"
  using renderProperties_groups [of
        "new_URIDereferencer\<lparr>resourceURI := Some ''http://e.org/r'', triples :=
           [\<lparr>subject = NamedNode ''http://e.org/r'', predicate = NamedNode ''http://e.org/p'',
             object = Literal ''second'' [] ''http://www.w3.org/2001/XMLSchema#string''\<rparr>,
            \<lparr>subject = NamedNode ''http://e.org/other'', predicate = NamedNode ''http://e.org/p'',
             object = NamedNode ''http://e.org/x''\<rparr>,
            \<lparr>subject = NamedNode ''http://e.org/r'', predicate = NamedNode ''http://e.org/a'',
             object = NamedNode ''http://e.org/y''\<rparr>,
            \<lparr>subject = NamedNode ''http://e.org/r'', predicate = NamedNode ''http://e.org/p'',
             object = Literal ''first'' [] ''http://www.w3.org/2001/XMLSchema#string''\<rparr>]\<rparr>"
        "''http://e.org/r''" "empty_page :: real page"]
  by (auto simp add: new_URIDereferencer_def object_prototype_keys_def)

text \<open>
  C5, at a predicate that is a property name of \<^verbatim>\<open>Object.prototype\<close>. The resource has two
  triples that share the predicate \<open>constructor\<close> and have distinct objects. On the first,
  \<^verbatim>\<open>grouped[pred]\<close> is the inherited function, so no list is made for the predicate and
  \<^verbatim>\<open>push\<close> throws: the table stays empty and hidden where the claim has one group with the
  two values, and the load ends with the page-level error message. The same two triples
  under the predicate \<open>https://data.matdata.eu/constructor\<close> give that group.
\<close>

theorem renderProperties_prototype_name:
  "renderProperties
     (demo_this\<lparr>triples :=
        [\<lparr>subject = NamedNode ''https://data.matdata.eu/r'',
          predicate = NamedNode ''constructor'',
          object = Literal ''first'' [] ''http://www.w3.org/2001/XMLSchema#string''\<rparr>,
         \<lparr>subject = NamedNode ''https://data.matdata.eu/r'',
          predicate = NamedNode ''constructor'',
          object = Literal ''second'' [] ''http://www.w3.org/2001/XMLSchema#string''\<rparr>]\<rparr>)
     (empty_page :: real page)
     = Inl (TypeError ''grouped[pred].push is not a function'', empty_page) \<and>
   renderProperties
     (demo_this\<lparr>triples :=
        [\<lparr>subject = NamedNode ''https://data.matdata.eu/r'',
          predicate = NamedNode ''https://data.matdata.eu/constructor'',
          object = Literal ''first'' [] ''http://www.w3.org/2001/XMLSchema#string''\<rparr>,
         \<lparr>subject = NamedNode ''https://data.matdata.eu/r'',
          predicate = NamedNode ''https://data.matdata.eu/constructor'',
          object = Literal ''second'' [] ''http://www.w3.org/2001/XMLSchema#string''\<rparr>]\<rparr>)
     (empty_page :: real page)
     = Inr (empty_page\<lparr>properties_tbody :=
              [(''https://data.matdata.eu/constructor'',
                [Literal ''first'' [] ''http://www.w3.org/2001/XMLSchema#string'',
                 Literal ''second'' [] ''http://www.w3.org/2001/XMLSchema#string''])],
            properties_display := ''block''\<rparr>) \<and>
   snd (loadResource
      (demo_env (demo_fetch (ok_response ''prototype name'') no_network_response
         no_network_response) demo_N3_parse demo_json) demo_this empty_page)
     = empty_page\<lparr>loading_display := ''none'',
         error_message := ''Failed to load resource: grouped[pred].push is not a function'',
         error_display := ''block'', console := [''Error loading resource:'']\<rparr>"
  by (simp add: loadResource_def loadResource_try_def executeSPARQLQuery_def parseResource_def
      renderProperties_def group_triple_def grouped_get_def grouped_set_def property_rows_def
      own_values_def object_prototype_keys_def showError_def console_line_def NS_GSP_def
      NS_RDF_def empty_page_def demo_env_def demo_fetch_def ok_response_def
      no_network_response_def demo_N3_parse_def demo_json_def demo_this_def
      new_URIDereferencer_def query_url_def describeQuery_def template_def)

section \<open>Properties of the geometry pipeline\<close>

subsection \<open>Splitting the literal\<close>

lemma match_digits_run:
  assumes "ds \<noteq> []" "list_all is_digit ds" "\<not> is_digit c"
  shows "match_digits (ds @ c # r) = Some (ds, c # r)"
proof -
  from assms(2) have all: "\<And>x. x \<in> set ds \<Longrightarrow> is_digit x" by (simp add: list_all_iff)
  then have "takeWhile is_digit (ds @ c # r) = ds" "dropWhile is_digit (ds @ c # r) = c # r"
    using assms(3) by (simp_all add: takeWhile_append2 dropWhile_append2)
  with assms(1) show ?thesis by (simp add: match_digits_def)
qed

lemma match_literal_i_append:
  "map to_lower p = map to_lower lit \<Longrightarrow> match_literal_i lit (p @ r) = Some r"
proof -
  assume eq: "map to_lower p = map to_lower lit"
  then have "length p = length lit" by (metis length_map)
  with eq show ?thesis by (simp add: match_literal_i_def)
qed

lemma ewktMatch_shape:
  assumes "map to_lower s = ''srid''" "ds \<noteq> []" "list_all is_digit ds"
    and "r \<noteq> []" "\<not> (\<exists>c \<in> set r. is_line_terminator c)"
  shows "ewktMatch (s @ ''='' @ ds @ '';'' @ r) = Some (ds, r)"
proof -
  have "map to_lower (s @ ''='') = map to_lower ''SRID=''"
    using assms(1) by (simp add: to_lower_def)
  then have "match_literal_i ''SRID='' ((s @ ''='') @ ds @ '';'' @ r) = Some (ds @ '';'' @ r)"
    by (rule match_literal_i_append)
  moreover have "match_digits (ds @ CHR '';'' # r) = Some (ds, CHR '';'' # r)"
    using assms(2,3) by (intro match_digits_run) (simp_all add: is_digit_def)
  ultimately show ?thesis
    using assms(4,5) by (simp add: ewktMatch_def match_rest_def)
qed

lemma ogcMatch_shape:
  assumes "map to_lower p = ''<http://www.opengis.net/def/crs/epsg/0/''"
    and "ds \<noteq> []" "list_all is_digit ds"
    and "ws \<noteq> []" "list_all is_space ws"
    and "r \<noteq> []" "\<not> is_space (hd r)" "\<not> (\<exists>c \<in> set r. is_line_terminator c)"
  shows "ogcMatch (p @ ds @ ''>'' @ ws @ r) = Some (ds, r)"
proof -
  have "map to_lower p = map to_lower ''<http://www.opengis.net/def/crs/EPSG/0/''"
    using assms(1) by (simp add: to_lower_def)
  then have "match_literal_i ''<http://www.opengis.net/def/crs/EPSG/0/'' (p @ ds @ ''>'' @ ws @ r)
               = Some (ds @ ''>'' @ ws @ r)"
    by (rule match_literal_i_append)
  moreover have "match_digits (ds @ CHR ''>'' # ws @ r) = Some (ds, CHR ''>'' # ws @ r)"
    using assms(2,3) by (intro match_digits_run) (simp_all add: is_digit_def)
  moreover have "match_space_rest (ws @ r) = Some r"
  proof -
    from assms(5) have all: "\<And>x. x \<in> set ws \<Longrightarrow> is_space x" by (simp add: list_all_iff)
    from assms(6,7) obtain c r' where r: "r = c # r'" "\<not> is_space c" by (cases r) auto
    have "takeWhile is_space (ws @ r) = ws" "dropWhile is_space (ws @ r) = r"
      using all r by (simp_all add: takeWhile_append2 dropWhile_append2)
    with assms(4,6,8) show ?thesis by (simp add: match_space_rest_def match_rest_def)
  qed
  ultimately show ?thesis by (simp add: ogcMatch_def)
qed

lemma parseWKT_unfold:
  "parseWKT w lit =
     (case ewktMatch (trim lit) of
        Some (ds, r) \<Rightarrow>
          (case ogcMatch r of
             Some (ds', r') \<Rightarrow> map_sum id (\<lambda>g. (g, Some (parseInt ds'))) (w r')
           | None \<Rightarrow> map_sum id (\<lambda>g. (g, Some (parseInt ds))) (w r))
      | None \<Rightarrow>
          (case ogcMatch (trim lit) of
             Some (ds', r') \<Rightarrow> map_sum id (\<lambda>g. (g, Some (parseInt ds'))) (w r')
           | None \<Rightarrow> map_sum id (\<lambda>g. (g, None)) (w (trim lit))))"
  by (simp add: parseWKT_def Let_def map_sum_def split: option.splits sum.splits prod.splits)

lemma ewkt_form_match:
  assumes "ewkt_form t s ds r"
  shows "ewktMatch t = Some (ds, r)"
proof -
  from assms have t: "t = s @ ''='' @ ds @ '';'' @ r" by (simp add: ewkt_form_def)
  show ?thesis
    unfolding t using assms by (intro ewktMatch_shape) (simp_all add: ewkt_form_def)
qed

lemma ogc_form_match:
  assumes "ogc_form t p ds ws r"
  shows "ogcMatch t = Some (ds, r)"
proof -
  from assms have t: "t = p @ ds @ ''>'' @ ws @ r" by (simp add: ogc_form_def)
  show ?thesis
    unfolding t using assms by (intro ogcMatch_shape) (simp_all add: ogc_form_def)
qed

lemmas wkt_eval = trim_def is_space_def ewktMatch_def ogcMatch_def
      match_literal_i_def to_lower_def match_digits_def is_digit_def match_rest_def
      match_space_rest_def is_line_terminator_def digit_value_def

lemma to_number_small: "n < 2 ^ 53 \<Longrightarrow> to_number n = Finite n"
  by (simp add: to_number_def)

lemma parseInt_31370: "parseInt ''31370'' = Finite 31370"
  by (simp add: parseInt_def digit_value_def to_number_small)

lemma parseInt_4326: "parseInt ''4326'' = Finite 4326"
  by (simp add: parseInt_def digit_value_def to_number_small)

lemma parseInt_3857: "parseInt ''3857'' = Finite 3857"
  by (simp add: parseInt_def digit_value_def to_number_small)



text \<open>
  C3, as the code has it. The literal is trimmed. A text of the EWKT form gives the
  Number that \<^verbatim>\<open>parseInt\<close> reads from its digits and leaves its rest; the CRS-URI test
  is then made on what is left, so a rest that is itself of the CRS-URI form replaces the
  number by its own and is stripped too: the later match wins, not the first. A text
  that is not of the EWKT form and is of the CRS-URI form gives the number of the URI; a
  text that neither pattern matches gives \<^verbatim>\<open>null\<close> and reaches the geometry parser
  whole. In each case the geometry is what the geometry parser makes of the text left.
  So the two literals of the claim give 31370 with the geometry of the text
  \<open>POINT(150000 150000)\<close>, and \<^verbatim>\<open>null\<close> with the geometry of the text unchanged; with a
  geometry parser that reads the two texts as the Points of their numbers, these are the
  Point of coordinates 150000 and 150000, and the Point of coordinates 4.35 and 50.85,
  which \<^verbatim>\<open>initializeMap\<close> draws as it is.
\<close>

theorem parseWKT_formats:
  fixes wr :: "string \<Rightarrow> error + real geojson option" and env :: "real env"
  shows
  "(ewkt_form (trim lit) s ds r \<and> ogcMatch r = None \<longrightarrow>
      parseWKT w lit = map_sum id (\<lambda>g. (g, Some (parseInt ds))) (w r)) \<and>
   (ewkt_form (trim lit) s ds r \<and> ogc_form r p ds' ws r' \<longrightarrow>
      parseWKT w lit = map_sum id (\<lambda>g. (g, Some (parseInt ds'))) (w r')) \<and>
   (ewktMatch (trim lit) = None \<and> ogc_form (trim lit) p ds' ws r' \<longrightarrow>
      parseWKT w lit = map_sum id (\<lambda>g. (g, Some (parseInt ds'))) (w r')) \<and>
   (ewktMatch (trim lit) = None \<and> ogcMatch (trim lit) = None \<longrightarrow>
      parseWKT w lit = map_sum id (\<lambda>g. (g, None)) (w (trim lit))) \<and>
   parseWKT w ''SRID=31370;POINT(150000 150000)'' =
     map_sum id (\<lambda>g. (g, Some (Finite 31370))) (w ''POINT(150000 150000)'') \<and>
   parseWKT w ''POINT(4.35 50.85)'' = map_sum id (\<lambda>g. (g, None)) (w ''POINT(4.35 50.85)'') \<and>
   (wr ''POINT(150000 150000)'' =
      Inr (Some (GeoJSON ''Point'' (Some (Arr [Num 150000, Num 150000])) [])) \<longrightarrow>
    parseWKT wr ''SRID=31370;POINT(150000 150000)'' =
      Inr (Some (GeoJSON ''Point'' (Some (Arr [Num 150000, Num 150000])) []),
           Some (Finite 31370))) \<and>
   (wr ''POINT(4.35 50.85)'' =
      Inr (Some (GeoJSON ''Point'' (Some (Arr [Num 4.35, Num 50.85])) [])) \<longrightarrow>
    parseWKT wr ''POINT(4.35 50.85)'' =
      Inr (Some (GeoJSON ''Point'' (Some (Arr [Num 4.35, Num 50.85])) []), None)) \<and>
   (wktToGeoJSON env ''POINT(4.35 50.85)'' =
      Inr (Some (GeoJSON ''Point'' (Some (Arr [Num 4.35, Num 50.85])) [])) \<longrightarrow>
    initializeMap env page ''POINT(4.35 50.85)'' =
      page\<lparr>map_created := True,
           geoJsonLayer := Some (GeoJSON ''Point'' (Some (Arr [Num 4.35, Num 50.85])) [])\<rparr>)"
proof -
  have ex1: "parseWKT v ''SRID=31370;POINT(150000 150000)'' =
     map_sum id (\<lambda>g. (g, Some (Finite 31370))) (v ''POINT(150000 150000)'')" for v :: "string \<Rightarrow> error + 'x geojson option"
    by (simp add: parseWKT_def trim_def is_space_def ewktMatch_def ogcMatch_def
        match_literal_i_def to_lower_def match_digits_def is_digit_def match_rest_def
        is_line_terminator_def parseInt_31370 map_sum_def split: sum.splits)
  have ex2: "parseWKT v ''POINT(4.35 50.85)'' = map_sum id (\<lambda>g. (g, None)) (v ''POINT(4.35 50.85)'')"
    for v :: "string \<Rightarrow> error + 'x geojson option"
    by (simp add: parseWKT_def trim_def is_space_def ewktMatch_def ogcMatch_def
        match_literal_i_def to_lower_def match_digits_def is_digit_def match_rest_def
        is_line_terminator_def map_sum_def split: sum.splits)
  have draw: "wktToGeoJSON env ''POINT(4.35 50.85)'' =
      Inr (Some (GeoJSON ''Point'' (Some (Arr [Num 4.35, Num 50.85])) [])) \<longrightarrow>
    initializeMap env page ''POINT(4.35 50.85)'' =
      page\<lparr>map_created := True,
           geoJsonLayer := Some (GeoJSON ''Point'' (Some (Arr [Num 4.35, Num 50.85])) [])\<rparr>"
    by (simp add: initializeMap_def ex2 srid_needs_transform_def)
  have forms: "(ewkt_form (trim lit) s ds r \<and> ogcMatch r = None \<longrightarrow>
      parseWKT w lit = map_sum id (\<lambda>g. (g, Some (parseInt ds))) (w r)) \<and>
   (ewkt_form (trim lit) s ds r \<and> ogc_form r p ds' ws r' \<longrightarrow>
      parseWKT w lit = map_sum id (\<lambda>g. (g, Some (parseInt ds'))) (w r')) \<and>
   (ewktMatch (trim lit) = None \<and> ogc_form (trim lit) p ds' ws r' \<longrightarrow>
      parseWKT w lit = map_sum id (\<lambda>g. (g, Some (parseInt ds'))) (w r')) \<and>
   (ewktMatch (trim lit) = None \<and> ogcMatch (trim lit) = None \<longrightarrow>
      parseWKT w lit = map_sum id (\<lambda>g. (g, None)) (w (trim lit)))"
    by (auto simp add: parseWKT_unfold dest!: ewkt_form_match ogc_form_match)
  show ?thesis
    using forms draw by (simp add: ex1 ex2)
qed

theorem parseWKT_formats_witness:
  "parseWKT given_text ''  srid=31370;MULTIPOINT(1 2,3 4)  ''
     = Inr (Some (GeoJSON ''MULTIPOINT(1 2,3 4)'' None []), Some (Finite 31370)) \<and>
   parseWKT given_text ''SRID=31370;<http://www.opengis.net/def/crs/EPSG/0/4326> POINT(1 2)''
     = Inr (Some (GeoJSON ''POINT(1 2)'' None []), Some (Finite 4326)) \<and>
   parseWKT given_text ''<http://www.opengis.net/def/crs/EPSG/0/3857>  POINT(1 2)''
     = Inr (Some (GeoJSON ''POINT(1 2)'' None []), Some (Finite 3857)) \<and>
   parseWKT given_text ''LINESTRING(0 0,1 1)''
     = Inr (Some (GeoJSON ''LINESTRING(0 0,1 1)'' None []), None) \<and>
   parseWKT demo_parser ''SRID=31370;POINT(150000 150000)''
     = Inr (Some (GeoJSON ''Point'' (Some (Arr [Num 150000, Num 150000])) []),
            Some (Finite 31370)) \<and>
   parseWKT demo_parser ''POINT(4.35 50.85)''
     = Inr (Some (GeoJSON ''Point'' (Some (Arr [Num 4.35, Num 50.85])) []), None) \<and>
   initializeMap offline_env empty_page ''POINT(4.35 50.85)''
     = empty_page\<lparr>map_created := True,
         geoJsonLayer := Some (GeoJSON ''Point'' (Some (Arr [Num 4.35, Num 50.85])) [])\<rparr>"
proof -
  have a1: "ewkt_form (trim ''  srid=31370;MULTIPOINT(1 2,3 4)  '') ''srid'' ''31370''
              ''MULTIPOINT(1 2,3 4)''"
    by (simp add: ewkt_form_def wkt_eval)
  have a2: "ogcMatch ''MULTIPOINT(1 2,3 4)'' = None"
    by (simp add: wkt_eval)
  have a: "parseWKT given_text ''  srid=31370;MULTIPOINT(1 2,3 4)  ''
             = map_sum id (\<lambda>g. (g, Some (parseInt ''31370''))) (given_text ''MULTIPOINT(1 2,3 4)'')"
    using parseWKT_formats [of "''  srid=31370;MULTIPOINT(1 2,3 4)  ''" "''srid''" "''31370''"
      "''MULTIPOINT(1 2,3 4)''" given_text] a1 a2 by blast
  have b1: "ewkt_form (trim ''SRID=31370;<http://www.opengis.net/def/crs/EPSG/0/4326> POINT(1 2)'')
              ''SRID'' ''31370'' ''<http://www.opengis.net/def/crs/EPSG/0/4326> POINT(1 2)''"
    by (simp add: ewkt_form_def wkt_eval)
  have b2: "ogc_form ''<http://www.opengis.net/def/crs/EPSG/0/4326> POINT(1 2)''
              ''<http://www.opengis.net/def/crs/EPSG/0/'' ''4326'' '' '' ''POINT(1 2)''"
    by (simp add: ogc_form_def wkt_eval)
  have b: "parseWKT given_text ''SRID=31370;<http://www.opengis.net/def/crs/EPSG/0/4326> POINT(1 2)''
             = map_sum id (\<lambda>g. (g, Some (parseInt ''4326''))) (given_text ''POINT(1 2)'')"
    using parseWKT_formats [of
      "''SRID=31370;<http://www.opengis.net/def/crs/EPSG/0/4326> POINT(1 2)''"
      "''SRID''" "''31370''" "''<http://www.opengis.net/def/crs/EPSG/0/4326> POINT(1 2)''"
      given_text "''<http://www.opengis.net/def/crs/EPSG/0/''" "''4326''" "'' ''" "''POINT(1 2)''"]
      b1 b2 by blast
  have c1: "ewktMatch (trim ''<http://www.opengis.net/def/crs/EPSG/0/3857>  POINT(1 2)'') = None"
    by (simp add: wkt_eval)
  have c2: "ogc_form (trim ''<http://www.opengis.net/def/crs/EPSG/0/3857>  POINT(1 2)'')
              ''<http://www.opengis.net/def/crs/EPSG/0/'' ''3857'' ''  '' ''POINT(1 2)''"
    by (simp add: ogc_form_def wkt_eval)
  have c: "parseWKT given_text ''<http://www.opengis.net/def/crs/EPSG/0/3857>  POINT(1 2)''
             = map_sum id (\<lambda>g. (g, Some (parseInt ''3857''))) (given_text ''POINT(1 2)'')"
    using parseWKT_formats [of "''<http://www.opengis.net/def/crs/EPSG/0/3857>  POINT(1 2)''"
      "[]" "[]" "[]" given_text "''<http://www.opengis.net/def/crs/EPSG/0/''" "''3857''" "''  ''"
      "''POINT(1 2)''"] c1 c2 by blast
  have d1: "ewktMatch (trim ''LINESTRING(0 0,1 1)'') = None"
    by (simp add: wkt_eval)
  have d2: "ogcMatch (trim ''LINESTRING(0 0,1 1)'') = None"
    by (simp add: wkt_eval)
  have d: "parseWKT given_text ''LINESTRING(0 0,1 1)''
             = map_sum id (\<lambda>g. (g, None)) (given_text (trim ''LINESTRING(0 0,1 1)''))"
    using parseWKT_formats [of "''LINESTRING(0 0,1 1)''" "[]" "[]" "[]" given_text "[]" "[]" "[]" "[]"]
      d1 d2 by blast
  have p1: "demo_parser ''POINT(150000 150000)'' =
      Inr (Some (GeoJSON ''Point'' (Some (Arr [Num 150000, Num 150000])) []))"
    by (simp add: demo_parser_def)
  have p2: "demo_parser ''POINT(4.35 50.85)'' =
      Inr (Some (GeoJSON ''Point'' (Some (Arr [Num 4.35, Num 50.85])) []))"
    by (simp add: demo_parser_def)
  have p3: "wktToGeoJSON offline_env ''POINT(4.35 50.85)'' =
      Inr (Some (GeoJSON ''Point'' (Some (Arr [Num 4.35, Num 50.85])) []))"
    by (simp add: offline_env_def demo_env_def p2)
  note ex = parseWKT_formats [of "[]" "[]" "[]" "[]" given_text "[]" "[]" "[]" "[]" demo_parser
      offline_env empty_page]
  have e: "parseWKT demo_parser ''SRID=31370;POINT(150000 150000)''
     = Inr (Some (GeoJSON ''Point'' (Some (Arr [Num 150000, Num 150000])) []),
            Some (Finite 31370))"
    using ex p1 by blast
  have f: "parseWKT demo_parser ''POINT(4.35 50.85)''
     = Inr (Some (GeoJSON ''Point'' (Some (Arr [Num 4.35, Num 50.85])) []), None)"
    using ex p2 by blast
  have g: "initializeMap offline_env empty_page ''POINT(4.35 50.85)''
     = empty_page\<lparr>map_created := True,
         geoJsonLayer := Some (GeoJSON ''Point'' (Some (Arr [Num 4.35, Num 50.85])) [])\<rparr>"
    using ex p3 by blast
  show ?thesis
    unfolding a b c d e f g
    by (simp add: given_text_def parseInt_31370 parseInt_4326 parseInt_3857 trim_def is_space_def)
qed

text \<open>
  The claim as stated fails on a literal with both prefixes: the EWKT pattern matches
  first, with the number 31370, but the result carries 4326, the number of the second
  match, and the text without either prefix. It fails too on a literal whose rest runs
  over two lines, which the EWKT pattern does not match, so that the SRID is \<^verbatim>\<open>null\<close> and
  the whole literal reaches the geometry parser; and on digits that write a number no
  Number is equal to, where the SRID is the nearest Number and not the digits.
\<close>

theorem parseWKT_first_match_counterexample:
  "ewktMatch ''SRID=31370;<http://www.opengis.net/def/crs/EPSG/0/4326> POINT(1 2)''
     = Some (''31370'', ''<http://www.opengis.net/def/crs/EPSG/0/4326> POINT(1 2)'') \<and>
   parseWKT given_text ''SRID=31370;<http://www.opengis.net/def/crs/EPSG/0/4326> POINT(1 2)''
     = Inr (Some (GeoJSON ''POINT(1 2)'' None []), Some (Finite 4326)) \<and>
   parseWKT given_text ''SRID=31370;<http://www.opengis.net/def/crs/EPSG/0/4326> POINT(1 2)''
     \<noteq> Inr (Some (GeoJSON ''<http://www.opengis.net/def/crs/EPSG/0/4326> POINT(1 2)'' None []),
            Some (Finite 31370)) \<and>
   parseWKT given_text (''SRID=31370;POINT(1'' @ [CHR 0x0A] @ ''2)'')
     = Inr (Some (GeoJSON (''SRID=31370;POINT(1'' @ [CHR 0x0A] @ ''2)'') None []), None) \<and>
   parseWKT given_text ''SRID=9007199254740993;POINT(1 2)''
     = Inr (Some (GeoJSON ''POINT(1 2)'' None []), Some (Finite 9007199254740992))"
  by (simp add: parseWKT_def wkt_eval given_text_def parseInt_def to_number_def bitlen.simps)

subsection \<open>Transforming the coordinates\<close>









lemmas demo_eval = offline_env_def demo_env_def demo_parser_def demo_proj4_def empty_page_def
  parseWKT_def initializeMap_def srid_needs_transform_def transformCoordinates_def
  commonProjections_def has_common_projection_def number_text_def transformGeoJSON_def
  not_coordinates_def console_line_def




lemma transformCoordinates_without_coordinates:
  "coordinates g = None \<Longrightarrow> \<exists>page'. transformCoordinates env page g n = Inr (g, page')"
  by (simp add: transformCoordinates_def transformGeoJSON_def not_coordinates_def)

text \<open>
  C10. A geometry object without a \<^verbatim>\<open>coordinates\<close> field, as a geometry collection is
  parsed, is returned by \<^verbatim>\<open>transformGeoJSON\<close> as it is; so whatever its SRID,
  \<^verbatim>\<open>initializeMap\<close> draws it with its members' coordinates as parsed, and the answer to a
  pending request for a projection definition leaves it unchanged too.
\<close>

theorem transformGeoJSON_without_coordinates:
  "(coordinates g = None \<longrightarrow> transformGeoJSON pr falsy (Some g) fromProj toProj = Inr (Some g)) \<and>
   (coordinates g = None \<and> parseWKT (wktToGeoJSON env) lit = Inr (Some g, srid) \<longrightarrow>
      geoJsonLayer (initializeMap env page lit) = Some g) \<and>
   (coordinates g = None \<longrightarrow> epsg_io_answered env g n answer = g)"
proof (intro conjI impI)
  assume "coordinates g = None"
  then show "transformGeoJSON pr falsy (Some g) fromProj toProj = Inr (Some g)"
    by (simp add: transformGeoJSON_def not_coordinates_def)
next
  assume a: "coordinates g = None \<and> parseWKT (wktToGeoJSON env) lit = Inr (Some g, srid)"
  show "geoJsonLayer (initializeMap env page lit) = Some g"
  proof (cases "srid_needs_transform srid")
    case False
    with a show ?thesis by (simp add: initializeMap_def)
  next
    case True
    then obtain x where x: "srid = Some x" by (auto simp add: srid_needs_transform_def)
    from a obtain page' where
      "transformCoordinates env (page\<lparr>map_created := True\<rparr>) g x = Inr (g, page')"
      using transformCoordinates_without_coordinates by blast
    with a True x show ?thesis by (simp add: initializeMap_def)
  qed
next
  assume "coordinates g = None"
  then show "epsg_io_answered env g n answer = g"
    by (simp add: epsg_io_answered_def transformGeoJSON_def not_coordinates_def
        split: sum.splits)
qed

theorem transformGeoJSON_without_coordinates_witness:
  "parseWKT demo_parser ''SRID=31370;GEOMETRYCOLLECTION(POINT(1 2))'' =
     Inr (Some (GeoJSON ''GeometryCollection'' None
            [GeoJSON ''Point'' (Some (Arr [Num 1, Num 2])) []]), Some (Finite 31370)) \<and>
   geoJsonLayer (initializeMap offline_env empty_page
       ''SRID=31370;GEOMETRYCOLLECTION(POINT(1 2))'') =
     Some (GeoJSON ''GeometryCollection'' None
            [GeoJSON ''Point'' (Some (Arr [Num 1, Num 2])) []]) \<and>
   transformGeoJSON demo_proj4 (\<lambda>x. x = 0)
     (Some (GeoJSON ''GeometryCollection'' None
            [GeoJSON ''Point'' (Some (Arr [Num 1, Num 2])) []])) ''EPSG:31370'' ''EPSG:4326'' =
     Inr (Some (GeoJSON ''GeometryCollection'' None
            [GeoJSON ''Point'' (Some (Arr [Num 1, Num 2])) []]))"
proof -
  let ?g = "GeoJSON ''GeometryCollection'' None [GeoJSON ''Point'' (Some (Arr [Num 1, Num (2::real)])) []]"
  have p: "parseWKT demo_parser ''SRID=31370;GEOMETRYCOLLECTION(POINT(1 2))'' =
             Inr (Some ?g, Some (Finite 31370))"
    by (simp add: demo_eval wkt_eval parseInt_31370)
  then have p': "parseWKT (wktToGeoJSON offline_env) ''SRID=31370;GEOMETRYCOLLECTION(POINT(1 2))''
              = Inr (Some ?g, Some (Finite 31370))"
    by (simp add: offline_env_def demo_env_def)
  have n: "coordinates ?g = None" by simp
  from transformGeoJSON_without_coordinates [of ?g demo_proj4 "\<lambda>x. x = 0" "''EPSG:31370''"
      "''EPSG:4326''" offline_env "''SRID=31370;GEOMETRYCOLLECTION(POINT(1 2))''"
      "Some (Finite 31370)" empty_page] p' n
  have "transformGeoJSON demo_proj4 (\<lambda>x. x = 0) (Some ?g) ''EPSG:31370'' ''EPSG:4326'' = Inr (Some ?g)"
    "geoJsonLayer (initializeMap offline_env empty_page
       ''SRID=31370;GEOMETRYCOLLECTION(POINT(1 2))'') = Some ?g"
    by blast+
  with p show ?thesis by simp
qed

section \<open>Properties of loading a resource\<close>

lemma executeSPARQLQuery_cases:
  "executeSPARQLQuery env q =
     (case fetch env (query_url env q) ''application/n-triples'' of
        Inl e \<Rightarrow> Inl e
      | Inr response \<Rightarrow>
          if ok response then N3_parse env (body response)
          else Inl (Error (''SPARQL query failed: '' @ statusText response)))"
  by (simp add: executeSPARQLQuery_def split: sum.splits)

text \<open>
  C8. When the DESCRIBE request is answered with success and the body parses to no
  triple, \<^verbatim>\<open>loadResource\<close> ends with the message \<open>No data found for resource:\<close> and the
  URI, and nothing else of the page is written. When the answer is an HTTP failure the
  message is \<open>Failed to load resource: SPARQL query failed:\<close> with the status text of the
  answer, and when the body does not parse it is \<open>Failed to load resource:\<close> with the
  parser's message. The first message differs from every message of the other kind.
\<close>

theorem loadResource_messages:
  "(fetch env (query_url env (describeQuery (resourceURI this))) ''application/n-triples'' = Inr r \<and>
    ok r \<and> N3_parse env (body r) = Inr [] \<longrightarrow>
      loadResource env this page =
        (this, page\<lparr>loading_display := ''none'',
                    error_message := ''No data found for resource: '' @ template (resourceURI this),
                    error_display := ''block''\<rparr>)) \<and>
   (fetch env (query_url env (describeQuery (resourceURI this))) ''application/n-triples'' = Inr r \<and>
    \<not> ok r \<longrightarrow>
      loadResource env this page =
        (this, page\<lparr>loading_display := ''none'',
                    error_message := ''Failed to load resource: SPARQL query failed: '' @ statusText r,
                    error_display := ''block'',
                    console := console page @ [''Error loading resource:'']\<rparr>)) \<and>
   (fetch env (query_url env (describeQuery (resourceURI this))) ''application/n-triples'' = Inr r \<and>
    ok r \<and> N3_parse env (body r) = Inl e \<longrightarrow>
      loadResource env this page =
        (this, page\<lparr>loading_display := ''none'',
                    error_message := ''Failed to load resource: '' @ message e,
                    error_display := ''block'',
                    console := console page @ [''Error loading resource:'']\<rparr>)) \<and>
   ''No data found for resource: '' @ template (resourceURI this) \<noteq>
     ''Failed to load resource: '' @ m"
  by (simp add: loadResource_def loadResource_try_def executeSPARQLQuery_cases showError_def
      console_line_def)

lemmas load_eval = demo_env_def demo_fetch_def ok_response_def failed_response_def
  demo_N3_parse_def demo_json_def demo_this_def new_URIDereferencer_def query_url_def
  describeQuery_def template_def

theorem loadResource_messages_witness:
  "error_message (snd (loadResource
      (demo_env (demo_fetch (ok_response []) (ok_response ''point'') (ok_response ''related''))
         demo_N3_parse demo_json) demo_this empty_page))
     = ''No data found for resource: https://data.matdata.eu/r'' \<and>
   error_message (snd (loadResource
      (demo_env (demo_fetch (failed_response ''Service Unavailable'') (ok_response ''point'')
         (ok_response ''related'')) demo_N3_parse demo_json) demo_this empty_page))
     = ''Failed to load resource: SPARQL query failed: Service Unavailable'' \<and>
   error_message (snd (loadResource
      (demo_env (demo_fetch (ok_response ''<r> <p> '') (ok_response ''point'')
         (ok_response ''related'')) demo_N3_parse demo_json) demo_this empty_page))
     = ''Failed to load resource: Unexpected token on line 1.''"
proof -
  let ?a = "demo_env (demo_fetch (ok_response []) (ok_response ''point'') (ok_response ''related''))
         demo_N3_parse demo_json"
  let ?b = "demo_env (demo_fetch (failed_response ''Service Unavailable'') (ok_response ''point'')
         (ok_response ''related'')) demo_N3_parse demo_json"
  let ?c = "demo_env (demo_fetch (ok_response ''<r> <p> '') (ok_response ''point'')
         (ok_response ''related'')) demo_N3_parse demo_json"
  have a: "fetch ?a (query_url ?a (describeQuery (resourceURI demo_this))) ''application/n-triples''
             = Inr \<lparr>ok = True, statusText = ''OK'', body = []\<rparr>"
    "N3_parse ?a [] = Inr []"
    by (simp_all add: load_eval)
  have b: "fetch ?b (query_url ?b (describeQuery (resourceURI demo_this))) ''application/n-triples''
             = Inr \<lparr>ok = False, statusText = ''Service Unavailable'', body = []\<rparr>"
    by (simp add: load_eval)
  have c: "fetch ?c (query_url ?c (describeQuery (resourceURI demo_this))) ''application/n-triples''
             = Inr \<lparr>ok = True, statusText = ''OK'', body = ''<r> <p> ''\<rparr>"
    "N3_parse ?c ''<r> <p> '' = Inl (Error ''Unexpected token on line 1.'')"
    by (simp_all add: load_eval)
  have u: "template (resourceURI demo_this) = ''https://data.matdata.eu/r''"
    by (simp add: load_eval)
  from loadResource_messages [of ?a demo_this "\<lparr>ok = True, statusText = ''OK'', body = []\<rparr>"
      empty_page] a
  have 1: "error_message (snd (loadResource ?a demo_this empty_page))
             = ''No data found for resource: '' @ template (resourceURI demo_this)" by simp
  from loadResource_messages [of ?b demo_this
      "\<lparr>ok = False, statusText = ''Service Unavailable'', body = []\<rparr>" empty_page] b
  have 2: "error_message (snd (loadResource ?b demo_this empty_page))
             = ''Failed to load resource: SPARQL query failed: Service Unavailable''" by simp
  from loadResource_messages [of ?c demo_this
      "\<lparr>ok = True, statusText = ''OK'', body = ''<r> <p> ''\<rparr>" empty_page
      "Error ''Unexpected token on line 1.''"] c
  have 3: "error_message (snd (loadResource ?c demo_this empty_page))
             = ''Failed to load resource: Unexpected token on line 1.''" by simp
  from 1 2 3 u show ?thesis by simp
qed

subsection \<open>The best-effort steps\<close>
















end
